theory Spec2Isabelle
  imports
    Complex_Main
    "HOL-Library.Char_ord"
    "HOL-Library.List_Lexorder"
    "HOL-Library.Product_Lexorder"
begin

section \<open>Eurovision vote preprocessing: the two pipeline variants\<close>

text \<open>
  The repository holds two Streamlit scripts, \<^verbatim>\<open>eurovision_preprocessor.py\<close> (variant 1)
  and \<^verbatim>\<open>eurovision_preprocessor2.py\<close> (variant 2). Both read flat record sets with
  pandas, merge votes with contestants, count participations, filter, weight and
  aggregate into an edge list and a node list. The functions
  \<^verbatim>\<open>calculate_weighted_votes\<close> and \<^verbatim>\<open>filter_countries\<close> are textually the same in
  both files and are embedded once; \<^verbatim>\<open>preprocess_data\<close> and \<^verbatim>\<open>main\<close> differ and the
  ones of variant 2 carry the suffix 2.

  A data frame is a list of rows (row order is the frame's order), a row is a record
  of its columns.
\<close>

subsection \<open>Numeric column values\<close>

text \<open>
  A float64 cell: a finite number, an infinity, or NaN (which is also how pandas
  stores a missing number). Finite arithmetic is exact here: rounding and the sign
  of zero are not represented.
\<close>

datatype fval = Fin rat | PInf | NInf | NaN

text \<open>Element-wise \<^verbatim>\<open>/\<close> of two numeric columns: it never raises; a zero divisor
  gives an infinity or NaN.\<close>

fun fdiv :: "fval \<Rightarrow> fval \<Rightarrow> fval" where
  "fdiv NaN _ = NaN"
| "fdiv _ NaN = NaN"
| "fdiv (Fin a) (Fin b) =
     (if b = 0 then (if 0 < a then PInf else if a < 0 then NInf else NaN)
      else Fin (a / b))"
| "fdiv (Fin a) PInf = Fin 0"
| "fdiv (Fin a) NInf = Fin 0"
| "fdiv PInf (Fin b) = (if b < 0 then NInf else PInf)"
| "fdiv NInf (Fin b) = (if b < 0 then PInf else NInf)"
| "fdiv PInf PInf = NaN"
| "fdiv PInf NInf = NaN"
| "fdiv NInf PInf = NaN"
| "fdiv NInf NInf = NaN"

text \<open>Element-wise \<^verbatim>\<open>*\<close>.\<close>

fun fmul :: "fval \<Rightarrow> fval \<Rightarrow> fval" where
  "fmul NaN _ = NaN"
| "fmul _ NaN = NaN"
| "fmul (Fin a) (Fin b) = Fin (a * b)"
| "fmul (Fin a) PInf = (if a = 0 then NaN else if 0 < a then PInf else NInf)"
| "fmul (Fin a) NInf = (if a = 0 then NaN else if 0 < a then NInf else PInf)"
| "fmul PInf (Fin b) = (if b = 0 then NaN else if 0 < b then PInf else NInf)"
| "fmul NInf (Fin b) = (if b = 0 then NaN else if 0 < b then NInf else PInf)"
| "fmul PInf PInf = PInf"
| "fmul PInf NInf = NInf"
| "fmul NInf PInf = NInf"
| "fmul NInf NInf = PInf"

fun fadd :: "fval \<Rightarrow> fval \<Rightarrow> fval" where
  "fadd NaN _ = NaN"
| "fadd _ NaN = NaN"
| "fadd (Fin a) (Fin b) = Fin (a + b)"
| "fadd (Fin a) PInf = PInf"
| "fadd (Fin a) NInf = NInf"
| "fadd PInf (Fin b) = PInf"
| "fadd NInf (Fin b) = NInf"
| "fadd PInf PInf = PInf"
| "fadd NInf NInf = NInf"
| "fadd PInf NInf = NaN"
| "fadd NInf PInf = NaN"

text \<open>The \<^verbatim>\<open>sum\<close> of a group of a float64 column: missing values are skipped, the
  empty sum is 0.\<close>

definition fsum :: "fval list \<Rightarrow> fval" where
  "fsum ws = foldl fadd (Fin 0) (filter (\<lambda>w. w \<noteq> NaN) ws)"

text \<open>
  An int64 cell is an integer from \<open>-2^63\<close> up to, not including, \<open>2^63\<close>; the sum
  of an int64 column wraps around into that range.
\<close>

definition in_int64 :: "int \<Rightarrow> bool" where
  "in_int64 n = (- (2 ^ 63) \<le> n \<and> n < 2 ^ 63)"

definition wrap64 :: "int \<Rightarrow> int" where
  "wrap64 n = (n + 2 ^ 63) mod 2 ^ 64 - 2 ^ 63"

text \<open>The \<^verbatim>\<open>sum\<close> of a group of an int64 column.\<close>

definition int64_sum :: "int list \<Rightarrow> int" where
  "int64_sum ns = wrap64 (sum_list ns)"

subsection \<open>Strings\<close>

definition lower_char :: "char \<Rightarrow> char" where
  "lower_char c =
     (case map_of (zip ''ABCDEFGHIJKLMNOPQRSTUVWXYZ'' ''abcdefghijklmnopqrstuvwxyz'') c of
        Some l \<Rightarrow> l
      | None \<Rightarrow> c)"

text \<open>\<^verbatim>\<open>x.lower()\<close>, on the letters that can matter for the test below.\<close>

definition lower :: "string \<Rightarrow> string" where
  "lower x = map lower_char x"

fun starts_with :: "string \<Rightarrow> string \<Rightarrow> bool" where
  "starts_with [] s = True"
| "starts_with (p # ps) [] = False"
| "starts_with (p # ps) (c # cs) = (p = c \<and> starts_with ps cs)"

text \<open>\<^verbatim>\<open>sub in s\<close> for strings.\<close>

fun contains :: "string \<Rightarrow> string \<Rightarrow> bool" where
  "contains sub [] = (sub = [])"
| "contains sub (c # cs) = (starts_with sub (c # cs) \<or> contains sub cs)"

text \<open>\<^verbatim>\<open>lambda x: 'final' if 'final' in x.lower() else 'semi-final'\<close>\<close>

definition normalize_round :: "string \<Rightarrow> string" where
  "normalize_round x = (if contains ''final'' (lower x) then ''final'' else ''semi-final'')"

subsection \<open>Input record sets\<close>

text \<open>
  The CSV files are not part of the repository; the columns are the ones the code
  reads. \<^verbatim>\<open>votes.csv\<close> and \<^verbatim>\<open>contestants.csv\<close> both have a column \<^verbatim>\<open>to_country\<close>
  (the merge renames them \<^verbatim>\<open>to_country_x\<close> and \<^verbatim>\<open>to_country_y\<close>), so the vote's
  column is named \<open>to_country_x\<close> from the start. The columns \<^verbatim>\<open>points_sf\<close> and
  \<^verbatim>\<open>points_final\<close> are placed in the vote record, as the specification's data model
  has them. The field \<open>round'\<close> is the column \<^verbatim>\<open>round\<close>. The column
  \<^verbatim>\<open>total_points\<close> of the votes is an int64 column.
\<close>

record vote =
  year :: int
  round' :: string
  from_country_id :: string
  to_country_id :: string
  to_country_x :: string
  points_sf :: fval
  points_final :: fval
  total_points :: int

record contestant =
  c_year :: int
  c_to_country_id :: string
  c_to_country :: string

record 'a cultural =
  cu_country_id :: string
  dimensions :: 'a

subsection \<open>Derived frames\<close>

text \<open>\<open>merged_df\<close>: the vote columns, the contestant's name (missing when no
  contestant matches), then the added column \<open>total_points_overall\<close>.\<close>

record merged_vote = vote +
  to_country_y :: "string option"

record merged_row = merged_vote +
  total_points_overall :: fval

text \<open>\<open>final_df\<close> after the renaming of its columns; the columns \<^verbatim>\<open>year\<close>, \<^verbatim>\<open>round\<close>
  and \<^verbatim>\<open>total_points\<close> carry the suffix \<open>_f\<close> here. Variant 1 has the further column
  \<open>to_country_name\<close>.\<close>

record final_row =
  year_f :: int
  round_f :: string
  from_country :: string
  to_country :: string
  points_given :: int
  total_points_f :: fval
  to_country_participation :: fval

record final_row_named = final_row +
  to_country_name :: "string option"

text \<open>\<open>country_counts_df\<close>; variant 2 joins the cultural dimensions to it.\<close>

record node =
  country_id :: string
  country_name :: "string option"
  count :: nat

record 'a node2 = node +
  cultural_dimensions :: "'a option"

text \<open>\<open>eurovision_votes\<close>, and the three columns written as the edge list.\<close>

record edge =
  e_from_country :: string
  e_to_country :: string
  e_weighted_points :: fval

text \<open>
  \<open>final_df\<close> is passed around first without and then with the column
  \<open>weighted_points\<close>: \<open>Frame\<close> is the frame without the column, \<open>FrameW\<close> pairs each
  row with its cell of that column when the column is float64 (the result of a
  division), \<open>FrameI\<close> when it is int64 (the copy of the integer column
  \<open>points_given\<close>).
\<close>

datatype 'r frame =
  Frame "'r list" | FrameW "('r \<times> fval) list" | FrameI "('r \<times> int) list"

datatype error = KeyError

text \<open>What a run shows (\<open>edgelist\<close>, \<open>nodelist\<close>) and what it writes or offers for
  download as CSV.\<close>

record 'n outputs =
  edgelist :: "edge list"
  nodelist :: "'n list"
  edgelist_csv :: "edge list"
  nodelist_csv :: "'n list"

subsection \<open>pandas operations\<close>

fun frame_rows :: "'r frame \<Rightarrow> 'r list" where
  "frame_rows (Frame rs) = rs"
| "frame_rows (FrameW rws) = map fst rws"
| "frame_rows (FrameI rns) = map fst rns"

text \<open>The column \<open>weighted_points\<close>, when the frame has it.\<close>

fun weighted_points :: "'r frame \<Rightarrow> fval list option" where
  "weighted_points (Frame rs) = None"
| "weighted_points (FrameW rws) = Some (map snd rws)"
| "weighted_points (FrameI rns) = Some (map (\<lambda>rn. Fin (of_int (snd rn))) rns)"

text \<open>\<^verbatim>\<open>df[mask]\<close> with a row-wise boolean mask.\<close>

fun select_rows :: "('r \<Rightarrow> bool) \<Rightarrow> 'r frame \<Rightarrow> 'r frame" where
  "select_rows P (Frame rs) = Frame (filter P rs)"
| "select_rows P (FrameW rws) = FrameW (filter (\<lambda>rw. P (fst rw)) rws)"
| "select_rows P (FrameI rns) = FrameI (filter (\<lambda>rn. P (fst rn)) rns)"

text \<open>A change of every row of a frame that leaves the column \<open>weighted_points\<close>
  as it is.\<close>

fun map_rows :: "('r \<Rightarrow> 's) \<Rightarrow> 'r frame \<Rightarrow> 's frame" where
  "map_rows h (Frame rs) = Frame (map h rs)"
| "map_rows h (FrameW rws) = FrameW (map (\<lambda>rw. (h (fst rw), snd rw)) rws)"
| "map_rows h (FrameI rns) = FrameI (map (\<lambda>rn. (h (fst rn), snd rn)) rns)"

text \<open>\<^verbatim>\<open>drop_duplicates()\<close> keeps the first of equal rows, in order.\<close>

definition drop_duplicates :: "'a list \<Rightarrow> 'a list" where
  "drop_duplicates xs = rev (remdups (rev xs))"

text \<open>\<^verbatim>\<open>dict(zip(keys, values))\<close> and \<^verbatim>\<open>to_dict()\<close>: a later entry replaces an
  earlier one with the same key.\<close>

definition to_dict :: "('k \<times> 'v) list \<Rightarrow> ('k \<rightharpoonup> 'v)" where
  "to_dict kvs = map_of (rev kvs)"

text \<open>\<^verbatim>\<open>pd.merge(votes_df, contestants_df, how='left', on (year, to_country_id))\<close>:
  every vote, in order, once per matching contestant row, and once with a missing
  name when there is none.\<close>

definition pd_merge :: "vote list \<Rightarrow> contestant list \<Rightarrow> merged_vote list" where
  "pd_merge votes_df contestants_df =
     concat (map (\<lambda>v.
       case filter (\<lambda>c. c_year c = year v \<and> c_to_country_id c = to_country_id v)
              contestants_df of
         [] \<Rightarrow> [vote.extend v (merged_vote.fields None)]
       | cs \<Rightarrow> map (\<lambda>c. vote.extend v (merged_vote.fields (Some (c_to_country c)))) cs)
       votes_df)"

text \<open>\<^verbatim>\<open>merged_df['total_points_overall'] = merged_df.apply(lambda row:
  row['points_final'] if row['round'] == 'final' else row['points_sf'], axis=1)\<close>.
  The row-wise \<^verbatim>\<open>apply\<close> is the map over the rows, also for a frame without rows.\<close>

definition add_total_points_overall :: "merged_vote list \<Rightarrow> merged_row list" where
  "add_total_points_overall merged_df =
     map (\<lambda>row. merged_vote.extend row
            (merged_row.fields
               (if round' row = ''final'' then points_final row else points_sf row)))
       merged_df"

text \<open>\<^verbatim>\<open>final_df['to_country'].map(participation_map)\<close>: the count, or a missing
  value for a key the dictionary does not have.\<close>

definition map_participation :: "(string \<rightharpoonup> nat) \<Rightarrow> string \<Rightarrow> fval" where
  "map_participation participation_map k =
     (case participation_map k of None \<Rightarrow> NaN | Some n \<Rightarrow> Fin (of_nat n))"

text \<open>\<^verbatim>\<open>pd.merge(country_counts_df, cultural_df, how='left', on='country_id')\<close>\<close>

definition merge_cultural :: "node list \<Rightarrow> 'a cultural list \<Rightarrow> 'a node2 list" where
  "merge_cultural country_counts_df cultural_df =
     concat (map (\<lambda>n.
       case filter (\<lambda>c. cu_country_id c = country_id n) cultural_df of
         [] \<Rightarrow> [node.extend n (node2.fields None)]
       | cs \<Rightarrow> map (\<lambda>c. node.extend n (node2.fields (Some (dimensions c)))) cs)
       country_counts_df)"

text \<open>\<^verbatim>\<open>groupby(['from_country', 'to_country'], as_index=False)['weighted_points'].sum()\<close>:
  one row per key, keys sorted; selecting a column the frame does not have raises
  \<^verbatim>\<open>KeyError\<close>. The sum of an int64 column is an int64 sum.\<close>

fun groupby_sum :: "('x final_row_scheme) frame \<Rightarrow> error + edge list" where
  "groupby_sum (Frame rs) = Inl KeyError"
| "groupby_sum (FrameW rws) =
     Inr (map (\<lambda>k. \<lparr>e_from_country = fst k, e_to_country = snd k,
                    e_weighted_points =
                      fsum (map snd (filter (\<lambda>rw. (from_country (fst rw), to_country (fst rw)) = k) rws))\<rparr>)
            (sort (remdups (map (\<lambda>rw. (from_country (fst rw), to_country (fst rw))) rws))))"
| "groupby_sum (FrameI rns) =
     Inr (map (\<lambda>k. \<lparr>e_from_country = fst k, e_to_country = snd k,
                    e_weighted_points =
                      Fin (of_int (int64_sum
                        (map snd (filter (\<lambda>rn. (from_country (fst rn), to_country (fst rn)) = k) rns))))\<rparr>)
            (sort (remdups (map (\<lambda>rn. (from_country (fst rn), to_country (fst rn))) rns))))"

text \<open>\<^verbatim>\<open>final_df[['from_country', 'to_country', 'weighted_points']]\<close>\<close>

fun edge_columns :: "('x final_row_scheme) frame \<Rightarrow> error + edge list" where
  "edge_columns (Frame rs) = Inl KeyError"
| "edge_columns (FrameW rws) =
     Inr (map (\<lambda>rw. \<lparr>e_from_country = from_country (fst rw), e_to_country = to_country (fst rw),
                     e_weighted_points = snd rw\<rparr>) rws)"
| "edge_columns (FrameI rns) =
     Inr (map (\<lambda>rn. \<lparr>e_from_country = from_country (fst rn), e_to_country = to_country (fst rn),
                     e_weighted_points = Fin (of_int (snd rn))\<rparr>) rns)"

subsection \<open>\<^verbatim>\<open>preprocess_data\<close>\<close>

text \<open>\<^verbatim>\<open>votes_df['round'] = votes_df['round'].apply(...)\<close>, the first statement of
  both variants.\<close>

definition normalize_rounds :: "vote list \<Rightarrow> vote list" where
  "normalize_rounds votes_df = map (\<lambda>v. v\<lparr>round' := normalize_round (round' v)\<rparr>) votes_df"

text \<open>The two optional filters of variant 2 on the votes, before the merge.\<close>

definition top3_final_filters :: "bool \<Rightarrow> bool \<Rightarrow> vote list \<Rightarrow> vote list" where
  "top3_final_filters top3_only final_only votes_df =
     (let votes_df = (if top3_only then filter (\<lambda>v. 8 \<le> total_points v) votes_df
                      else votes_df);
          votes_df = (if final_only then filter (\<lambda>v. round' v = ''final'') votes_df
                      else votes_df)
      in votes_df)"

text \<open>Variant 1. The groups of \<^verbatim>\<open>groupby(['to_country_x', 'to_country_y']).size()\<close>
  are the sorted keys without missing parts.\<close>

definition preprocess_data ::
  "contestant list \<Rightarrow> vote list \<Rightarrow> final_row_named frame \<times> node list" where
  "preprocess_data contestants_df votes_df =
     (let votes_df = normalize_rounds votes_df;
          merged_df = add_total_points_overall (pd_merge votes_df contestants_df);
          unique_years_df =
            drop_duplicates
              (map (\<lambda>r. (year r, round' r, to_country_x r, to_country_y r)) merged_df);
          country_counts_df =
            map (\<lambda>(x, y).
                  \<lparr>country_id = x, country_name = Some y,
                   count = length (filter (\<lambda>(_, _, x', y'). x' = x \<and> y' = Some y)
                                     unique_years_df)\<rparr>)
              (sort (remdups
                 (concat (map (\<lambda>(_, _, x, y). case y of None \<Rightarrow> [] | Some n \<Rightarrow> [(x, n)])
                            unique_years_df))));
          participation_map =
            to_dict (map (\<lambda>n. (country_id n, count n)) country_counts_df);
          final_df =
            map (\<lambda>r. \<lparr>year_f = year r, round_f = round' r,
                      from_country = from_country_id r, to_country = to_country_id r,
                      points_given = total_points r,
                      total_points_f = total_points_overall r,
                      to_country_participation =
                        map_participation participation_map (to_country_id r),
                      to_country_name = to_country_y r\<rparr>)
              merged_df
      in (Frame final_df, country_counts_df))"

text \<open>Variant 2. \<^verbatim>\<open>groupby('to_country_id').agg({'to_country_y': 'first', 'year':
  'size'})\<close>: per id, the first name that is not missing and the number of rows.\<close>

definition preprocess_data2 ::
  "contestant list \<Rightarrow> vote list \<Rightarrow> 'a cultural list \<Rightarrow> bool \<Rightarrow> bool
     \<Rightarrow> final_row frame \<times> 'a node2 list" where
  "preprocess_data2 contestants_df votes_df cultural_df top3_only final_only =
     (let votes_df = normalize_rounds votes_df;
          votes_df = top3_final_filters top3_only final_only votes_df;
          merged_df = add_total_points_overall (pd_merge votes_df contestants_df);
          unique_years_df =
            drop_duplicates
              (map (\<lambda>r. (year r, round' r, to_country_x r, to_country_y r, to_country_id r))
                 merged_df);
          country_counts_df =
            map (\<lambda>i. let g = filter (\<lambda>(_, _, _, _, i'). i' = i) unique_years_df in
                  \<lparr>country_id = i,
                   country_name =
                     (case filter (\<lambda>y. y \<noteq> None) (map (\<lambda>(_, _, _, y, _). y) g) of
                        [] \<Rightarrow> None
                      | y # _ \<Rightarrow> y),
                   count = length g\<rparr>)
              (sort (remdups (map (\<lambda>(_, _, _, _, i). i) unique_years_df)));
          country_counts_df = merge_cultural country_counts_df cultural_df;
          participation_map =
            to_dict (map (\<lambda>n. (country_id n, count n)) country_counts_df);
          final_df =
            map (\<lambda>r. \<lparr>year_f = year r, round_f = round' r,
                      from_country = from_country_id r, to_country = to_country_id r,
                      points_given = total_points r,
                      total_points_f = total_points_overall r,
                      to_country_participation =
                        map_participation participation_map (to_country_id r)\<rparr>)
              merged_df
      in (Frame final_df, country_counts_df))"

subsection \<open>\<^verbatim>\<open>calculate_weighted_votes\<close> and \<^verbatim>\<open>filter_countries\<close>\<close>

text \<open>Assigning the column \<open>weighted_points\<close>: added to a frame without it,
  replaced in a frame that has it. The quotient of two columns is a float64 column;
  \<open>points_given\<close> itself is an int64 column.\<close>

fun set_weighted_points :: "('r \<Rightarrow> fval) \<Rightarrow> 'r frame \<Rightarrow> 'r frame" where
  "set_weighted_points f (Frame rs) = FrameW (map (\<lambda>r. (r, f r)) rs)"
| "set_weighted_points f (FrameW rws) = FrameW (map (\<lambda>rw. (fst rw, f (fst rw))) rws)"
| "set_weighted_points f (FrameI rns) = FrameW (map (\<lambda>rn. (fst rn, f (fst rn))) rns)"

fun set_weighted_points_int64 :: "('r \<Rightarrow> int) \<Rightarrow> 'r frame \<Rightarrow> 'r frame" where
  "set_weighted_points_int64 f (Frame rs) = FrameI (map (\<lambda>r. (r, f r)) rs)"
| "set_weighted_points_int64 f (FrameW rws) = FrameI (map (\<lambda>rw. (fst rw, f (fst rw))) rws)"
| "set_weighted_points_int64 f (FrameI rns) = FrameI (map (\<lambda>rn. (fst rn, f (fst rn))) rns)"

definition calculate_weighted_votes ::
  "('x final_row_scheme) frame \<Rightarrow> string \<Rightarrow> ('x final_row_scheme) frame" where
  "calculate_weighted_votes final_df weighting_method =
     (if weighting_method = ''No weights'' then
        set_weighted_points_int64 points_given final_df
      else if weighting_method = ''Divide by participation count'' then
        set_weighted_points
          (\<lambda>r. fdiv (Fin (of_int (points_given r))) (to_country_participation r)) final_df
      else if weighting_method = ''Divide by total points'' then
        set_weighted_points
          (\<lambda>r. fdiv (Fin (of_int (points_given r))) (total_points_f r)) final_df
      else if weighting_method = ''Divide by both'' then
        set_weighted_points
          (\<lambda>r. fdiv (Fin (of_int (points_given r)))
                 (fmul (total_points_f r) (to_country_participation r))) final_df
      else final_df)"

text \<open>The selection is a list of names (strings); a name the mapping does not have
  is skipped.\<close>

definition filter_countries ::
  "('x final_row_scheme) frame \<Rightarrow> ('y node_scheme) list \<Rightarrow> string list
     \<Rightarrow> ('x final_row_scheme) frame" where
  "filter_countries final_df country_counts_df selected_countries =
     (let country_mapping =
            to_dict (zip (map country_name country_counts_df)
                         (map country_id country_counts_df));
          selected_country_ids =
            concat (map (\<lambda>country. case country_mapping (Some country) of
                                     None \<Rightarrow> [] | Some i \<Rightarrow> [i])
                      selected_countries)
      in select_rows (\<lambda>r. to_country r \<in> set selected_country_ids
                          \<and> from_country r \<in> set selected_country_ids) final_df)"

subsection \<open>\<^verbatim>\<open>main\<close>\<close>

text \<open>
  The widgets' values are parameters: \<open>weighting_method\<close> (the radio button's
  string), \<open>min_participations\<close> (the number input, at least 0),
  \<open>selected_countries\<close> (the multiselect), and for variant 2 the two checkboxes.
  The loaded frames are parameters too. Variant 1 writes the frames it shows.
\<close>

text \<open>The statements of \<^verbatim>\<open>main\<close> between \<^verbatim>\<open>preprocess_data\<close> and
  \<^verbatim>\<open>calculate_weighted_votes\<close>, the same in both variants: the filter by
  minimum participation count, then the country selection.\<close>

definition main_filters ::
  "('x final_row_scheme) frame \<times> ('y node_scheme) list \<Rightarrow> nat \<Rightarrow> string list
     \<Rightarrow> ('x final_row_scheme) frame \<times> ('y node_scheme) list" where
  "main_filters preprocessed min_participations selected_countries =
     (let (final_df, country_counts_df) = preprocessed;
          country_counts_df =
            filter (\<lambda>n. min_participations \<le> count n) country_counts_df;
          final_df =
            select_rows (\<lambda>r. to_country r \<in> set (map country_id country_counts_df)) final_df;
          final_df =
            select_rows (\<lambda>r. from_country r \<in> set (map country_id country_counts_df)) final_df;
          final_df = filter_countries final_df country_counts_df selected_countries;
          country_counts_df =
            filter (\<lambda>n. country_name n \<in> set (map Some selected_countries)) country_counts_df
      in (final_df, country_counts_df))"

definition main ::
  "string \<Rightarrow> nat \<Rightarrow> string list \<Rightarrow> contestant list \<Rightarrow> vote list
     \<Rightarrow> error + node outputs" where
  "main weighting_method min_participations selected_countries contestants_df votes_df =
     (let (final_df, country_counts_df) =
            main_filters (preprocess_data contestants_df votes_df)
              min_participations selected_countries;
          final_df = calculate_weighted_votes final_df weighting_method;
          df_filtered = select_rows (\<lambda>r. from_country r \<noteq> to_country r) final_df
      in case groupby_sum df_filtered of
           Inl e \<Rightarrow> Inl e
         | Inr eurovision_votes \<Rightarrow>
             Inr \<lparr>edgelist = eurovision_votes, nodelist = country_counts_df,
                  edgelist_csv = eurovision_votes, nodelist_csv = country_counts_df\<rparr>)"

text \<open>Variant 2 drops the edges whose sum equals 0 from what it shows, and offers
  the three columns of \<open>final_df\<close> itself as the edge list to download.\<close>

definition main2 ::
  "bool \<Rightarrow> bool \<Rightarrow> string \<Rightarrow> nat \<Rightarrow> string list
     \<Rightarrow> contestant list \<Rightarrow> vote list \<Rightarrow> 'a cultural list
     \<Rightarrow> error + ('a node2) outputs" where
  "main2 top3_only final_only weighting_method min_participations selected_country_names
         contestants_df votes_df cultural_df =
     (let (final_df, country_counts_df) =
            main_filters
              (preprocess_data2 contestants_df votes_df cultural_df top3_only final_only)
              min_participations selected_country_names;
          final_df = calculate_weighted_votes final_df weighting_method;
          df_filtered = select_rows (\<lambda>r. from_country r \<noteq> to_country r) final_df
      in case groupby_sum df_filtered of
           Inl e \<Rightarrow> Inl e
         | Inr eurovision_votes \<Rightarrow>
             (let eurovision_votes =
                    filter (\<lambda>e. e_weighted_points e \<noteq> Fin 0) eurovision_votes
              in case edge_columns final_df of
                   Inl e \<Rightarrow> Inl e
                 | Inr edge_list_csv \<Rightarrow>
                     Inr \<lparr>edgelist = eurovision_votes, nodelist = country_counts_df,
                          edgelist_csv = edge_list_csv, nodelist_csv = country_counts_df\<rparr>))"

text \<open>The options of the radio button \<^verbatim>\<open>st.radio\<close> in \<^verbatim>\<open>main\<close>.\<close>

definition weighting_options :: "string list" where
  "weighting_options =
     [''No weights'', ''Divide by participation count'', ''Divide by total points'',
      ''Divide by both'']"

subsection \<open>The quantities the specification names\<close>

text \<open>The divisor of a weighting method: \<open>to_country_participation\<close> for the
  division by participation count, \<open>total_points\<close> for the division by total
  points, their product for the division by both; none without weights.\<close>

definition weighting_divisor :: "string \<Rightarrow> 'x final_row_scheme \<Rightarrow> fval option" where
  "weighting_divisor weighting_method r =
     (if weighting_method = ''Divide by participation count'' then
        Some (to_country_participation r)
      else if weighting_method = ''Divide by total points'' then Some (total_points_f r)
      else if weighting_method = ''Divide by both'' then
        Some (fmul (total_points_f r) (to_country_participation r))
      else None)"

text \<open>The rows of \<open>final_df\<close> that are no self-loops: with the filtered frame, the
  surviving vote records.\<close>

definition surviving_rows :: "('x final_row_scheme) frame \<Rightarrow> ('x final_row_scheme) list" where
  "surviving_rows final_df =
     filter (\<lambda>r. from_country r \<noteq> to_country r) (frame_rows final_df)"

text \<open>The sum of the weighted points over the edges a run shows, and over the edges it
  writes.\<close>

definition shown_total :: "error + 'n outputs \<Rightarrow> fval option" where
  "shown_total run =
     (case run of Inl _ \<Rightarrow> None | Inr out \<Rightarrow> Some (fsum (map e_weighted_points (edgelist out))))"

definition written_total :: "error + 'n outputs \<Rightarrow> fval option" where
  "written_total run =
     (case run of Inl _ \<Rightarrow> None
      | Inr out \<Rightarrow> Some (fsum (map e_weighted_points (edgelist_csv out))))"

text \<open>No pair of countries has raw points whose total leaves the int64 range.\<close>

definition group_sums_fit :: "('x final_row_scheme) list \<Rightarrow> bool" where
  "group_sums_fit rs =
     (\<forall>r\<in>set rs.
        in_int64 (sum_list (map points_given
          (filter (\<lambda>r'. from_country r' = from_country r \<and> to_country r' = to_country r) rs))))"

text \<open>A vote record without its fields \<open>points_sf\<close> and \<open>points_final\<close>; two sets
  of vote records differ only in these fields when they agree without them.\<close>

definition without_points :: "'a vote_scheme \<Rightarrow> 'a vote_scheme" where
  "without_points v = v\<lparr>points_sf := NaN, points_final := NaN\<rparr>"

definition differ_only_in_points :: "vote list \<Rightarrow> vote list \<Rightarrow> bool" where
  "differ_only_in_points votes_df votes_df' =
     (map without_points votes_df = map without_points votes_df')"

text \<open>The total points awarded by the voting country of a vote in that vote's year
  and round, and the weighted points the specification gives for the division by
  total points.\<close>

definition points_awarded_by :: "vote list \<Rightarrow> vote \<Rightarrow> int" where
  "points_awarded_by votes_df v =
     sum_list (map total_points
       (filter (\<lambda>u. year u = year v \<and> round' u = round' v
                    \<and> from_country_id u = from_country_id v) votes_df))"

definition by_total_of_spec :: "vote list \<Rightarrow> vote \<Rightarrow> fval" where
  "by_total_of_spec votes_df v =
     fdiv (Fin (of_int (total_points v))) (Fin (of_int (points_awarded_by votes_df v)))"

text \<open>The number of distinct pairs of year and round in which a country is the
  destination of a vote.\<close>

definition distinct_year_rounds :: "vote list \<Rightarrow> string \<Rightarrow> nat" where
  "distinct_year_rounds votes_df i =
     length (remdups (map (\<lambda>v. (year v, round' v))
                        (filter (\<lambda>v. to_country_id v = i) votes_df)))"

text \<open>The label of the destination is the same in all votes of a year and round for
  one destination id; a contestant key has one name.\<close>

definition labels_agree :: "vote list \<Rightarrow> bool" where
  "labels_agree votes_df =
     (\<forall>u\<in>set votes_df. \<forall>v\<in>set votes_df.
        year u = year v \<and> round' u = round' v \<and> to_country_id u = to_country_id v
          \<longrightarrow> to_country_x u = to_country_x v)"

definition names_agree :: "contestant list \<Rightarrow> bool" where
  "names_agree contestants_df =
     (\<forall>c\<in>set contestants_df. \<forall>d\<in>set contestants_df.
        c_year c = c_year d \<and> c_to_country_id c = c_to_country_id d
          \<longrightarrow> c_to_country c = c_to_country d)"

subsection \<open>A small record set\<close>

text \<open>Three countries voting for each other in 2021 and 2022. Germany votes for
  itself once, and is entered under another name in 2022.\<close>

definition ex_contestants :: "contestant list" where
  "ex_contestants =
     [\<lparr>c_year = 2021, c_to_country_id = ''DE'', c_to_country = ''Germany''\<rparr>,
      \<lparr>c_year = 2021, c_to_country_id = ''FR'', c_to_country = ''France''\<rparr>,
      \<lparr>c_year = 2021, c_to_country_id = ''ES'', c_to_country = ''Spain''\<rparr>,
      \<lparr>c_year = 2022, c_to_country_id = ''DE'', c_to_country = ''Deutschland''\<rparr>]"

definition ex_votes :: "vote list" where
  "ex_votes =
     [\<lparr>year = 2021, round' = ''Final'', from_country_id = ''FR'', to_country_id = ''DE'',
       to_country_x = ''DE'', points_sf = NaN, points_final = Fin 200, total_points = 10\<rparr>,
      \<lparr>year = 2021, round' = ''final'', from_country_id = ''ES'', to_country_id = ''DE'',
       to_country_x = ''DE'', points_sf = NaN, points_final = Fin 200, total_points = 5\<rparr>,
      \<lparr>year = 2021, round' = ''final'', from_country_id = ''DE'', to_country_id = ''FR'',
       to_country_x = ''FR'', points_sf = NaN, points_final = Fin 100, total_points = 12\<rparr>,
      \<lparr>year = 2021, round' = ''semi-final 1'', from_country_id = ''DE'', to_country_id = ''ES'',
       to_country_x = ''ES'', points_sf = Fin 50, points_final = NaN, total_points = 8\<rparr>,
      \<lparr>year = 2021, round' = ''final'', from_country_id = ''DE'', to_country_id = ''DE'',
       to_country_x = ''DE'', points_sf = NaN, points_final = Fin 200, total_points = 3\<rparr>,
      \<lparr>year = 2022, round' = ''final'', from_country_id = ''FR'', to_country_id = ''DE'',
       to_country_x = ''DE'', points_sf = NaN, points_final = Fin 150, total_points = 7\<rparr>]"

definition ex_selection :: "string list" where
  "ex_selection = [''Germany'', ''Deutschland'', ''France'', ''Spain'']"

definition ex_row :: final_row where
  "ex_row = \<lparr>year_f = 2021, round_f = ''final'', from_country = ''FR'', to_country = ''DE'',
              points_given = 10, total_points_f = Fin 0, to_country_participation = NaN\<rparr>"

text \<open>A single vote of a country for itself.\<close>

definition ex_self_vote :: "vote list" where
  "ex_self_vote =
     [\<lparr>year = 2021, round' = ''final'', from_country_id = ''DE'', to_country_id = ''DE'',
       to_country_x = ''DE'', points_sf = NaN, points_final = Fin 200, total_points = 12\<rparr>]"

text \<open>The votes of \<open>ex_votes\<close> with other values of \<open>points_sf\<close> and
  \<open>points_final\<close>.\<close>

definition ex_votes_other_points :: "vote list" where
  "ex_votes_other_points = map (\<lambda>v. v\<lparr>points_sf := Fin 1, points_final := Fin 1\<rparr>) ex_votes"

text \<open>Two votes for Germany in the final of 2021 that spell the destination's label
  differently.\<close>

definition ex_votes_two_labels :: "vote list" where
  "ex_votes_two_labels =
     [\<lparr>year = 2021, round' = ''final'', from_country_id = ''FR'', to_country_id = ''DE'',
       to_country_x = ''DE'', points_sf = NaN, points_final = Fin 200, total_points = 10\<rparr>,
      \<lparr>year = 2021, round' = ''final'', from_country_id = ''ES'', to_country_id = ''DE'',
       to_country_x = ''de'', points_sf = NaN, points_final = Fin 200, total_points = 5\<rparr>]"

text \<open>Votes of France for Germany in two years whose points add up to \<open>2^63\<close>, and a
  vote of Germany for France.\<close>

definition ex_votes_big :: "vote list" where
  "ex_votes_big =
     [\<lparr>year = 2021, round' = ''final'', from_country_id = ''FR'', to_country_id = ''DE'',
       to_country_x = ''DE'', points_sf = NaN, points_final = Fin 200,
       total_points = 4611686018427387904\<rparr>,
      \<lparr>year = 2022, round' = ''final'', from_country_id = ''FR'', to_country_id = ''DE'',
       to_country_x = ''DE'', points_sf = NaN, points_final = Fin 150,
       total_points = 4611686018427387904\<rparr>,
      \<lparr>year = 2021, round' = ''final'', from_country_id = ''DE'', to_country_id = ''FR'',
       to_country_x = ''FR'', points_sf = NaN, points_final = Fin 100, total_points = 1\<rparr>]"

section \<open>Properties\<close>

subsection \<open>Column arithmetic\<close>

lemma fdiv_zero: "fdiv (Fin a) (Fin 0) \<in> {NaN, PInf, NInf}"
  by simp

lemma fdiv_NaN: "fdiv x NaN = NaN"
  by (cases x) simp_all

subsection \<open>Frames\<close>

lemma set_weighted_points_eq:
  "set_weighted_points f df = FrameW (map (\<lambda>r. (r, f r)) (frame_rows df))"
  by (cases df) (simp_all add: comp_def)

lemma set_weighted_points_int64_eq:
  "set_weighted_points_int64 f df = FrameI (map (\<lambda>r. (r, f r)) (frame_rows df))"
  by (cases df) (simp_all add: comp_def)

lemma frame_rows_select_rows: "frame_rows (select_rows P df) = filter P (frame_rows df)"
  by (cases df) (simp_all add: filter_map comp_def)

lemma calculate_weighted_votes_options:
  assumes "weighting_method \<in> set weighting_options"
  shows "(\<exists>rws. calculate_weighted_votes final_df weighting_method = FrameW rws)
       \<or> (\<exists>rns. calculate_weighted_votes final_df weighting_method = FrameI rns)"
proof -
  consider (none) "weighting_method = ''No weights''"
    | (part) "weighting_method = ''Divide by participation count''"
    | (total) "weighting_method = ''Divide by total points''"
    | (both) "weighting_method = ''Divide by both''"
    using assms unfolding weighting_options_def by fastforce
  then show ?thesis
    by cases
      (simp_all add: calculate_weighted_votes_def set_weighted_points_eq
         set_weighted_points_int64_eq)
qed

lemma groupby_sum_returns:
  assumes "weighting_method \<in> set weighting_options"
  shows "\<exists>es. groupby_sum (select_rows P (calculate_weighted_votes final_df weighting_method)) = Inr es"
  using calculate_weighted_votes_options [OF assms, of final_df] by auto

lemma edge_columns_returns:
  assumes "weighting_method \<in> set weighting_options"
  shows "\<exists>es. edge_columns (calculate_weighted_votes final_df weighting_method) = Inr es"
  using calculate_weighted_votes_options [OF assms, of final_df] by auto

subsection \<open>The node list of a run\<close>

lemma snd_main_filters:
  "snd (main_filters (final_df, country_counts_df) m sel) =
     filter (\<lambda>n. country_name n \<in> set (map Some sel))
       (filter (\<lambda>n. m \<le> count n) country_counts_df)"
  by (simp add: main_filters_def Let_def)

lemma main_returns:
  assumes "weighting_method \<in> set weighting_options"
  shows "\<exists>out. main weighting_method m sel cs vs = Inr out"
proof -
  obtain F C where fc: "main_filters (preprocess_data cs vs) m sel = (F, C)"
    by (cases "main_filters (preprocess_data cs vs) m sel")
  obtain es where
    "groupby_sum (select_rows (\<lambda>r. from_country r \<noteq> to_country r)
        (calculate_weighted_votes F weighting_method)) = Inr es"
    using groupby_sum_returns [OF assms] by blast
  then show ?thesis by (simp add: main_def fc)
qed

lemma main2_returns:
  assumes "weighting_method \<in> set weighting_options"
  shows "\<exists>out. main2 t3 fo weighting_method m sel cs vs cu = Inr out"
proof -
  obtain F C where fc: "main_filters (preprocess_data2 cs vs cu t3 fo) m sel = (F, C)"
    by (cases "main_filters (preprocess_data2 cs vs cu t3 fo) m sel")
  obtain es where
    "groupby_sum (select_rows (\<lambda>r. from_country r \<noteq> to_country r)
        (calculate_weighted_votes F weighting_method)) = Inr es"
    using groupby_sum_returns [OF assms] by blast
  moreover obtain es' where "edge_columns (calculate_weighted_votes F weighting_method) = Inr es'"
    using edge_columns_returns [OF assms] by blast
  ultimately show ?thesis by (simp add: main2_def fc)
qed

lemma main_nodelist:
  assumes "main w m sel cs vs = Inr out"
  shows "nodelist out = snd (main_filters (preprocess_data cs vs) m sel)"
    and "nodelist_csv out = nodelist out"
  using assms by (simp_all add: main_def Let_def split: prod.splits sum.splits) auto

lemma main2_nodelist:
  assumes "main2 t3 fo w m sel cs vs cu = Inr out"
  shows "nodelist out = snd (main_filters (preprocess_data2 cs vs cu t3 fo) m sel)"
    and "nodelist_csv out = nodelist out"
  using assms by (simp_all add: main2_def Let_def split: prod.splits sum.splits) auto

subsection \<open>The weighting step\<close>

text \<open>
  C10. For a weighting method that is none of the four option strings,
  \<open>calculate_weighted_votes\<close> returns its input unchanged: no column
  \<open>weighted_points\<close> is added, and nothing is raised.
\<close>

theorem calculate_weighted_votes_unrecognized:
  assumes "weighting_method \<notin> set weighting_options"
  shows "calculate_weighted_votes final_df weighting_method = final_df
       \<and> weighted_points (calculate_weighted_votes final_df weighting_method)
           = weighted_points final_df"
  using assms by (simp add: calculate_weighted_votes_def weighting_options_def)

theorem calculate_weighted_votes_unrecognized_witness:
  "''Divide by rank'' \<notin> set weighting_options
 \<and> calculate_weighted_votes (Frame [ex_row]) ''Divide by rank'' = Frame [ex_row]
 \<and> weighted_points (calculate_weighted_votes (Frame [ex_row]) ''Divide by rank'') = None"
proof -
  have h: "''Divide by rank'' \<notin> set weighting_options"
    by (simp add: weighting_options_def)
  show ?thesis
    using h calculate_weighted_votes_unrecognized [OF h, of "Frame [ex_row]"] by simp
qed

text \<open>
  C8. For a vote record whose weighting divisor is zero or missing, the weighting
  step raises nothing: every record of the frame is retained, and the weighted value
  of that record is NaN or an infinity.
\<close>

theorem zero_or_missing_divisor_is_silent:
  assumes "weighting_divisor weighting_method (frame_rows final_df ! i) = Some d"
    and "d = Fin 0 \<or> d = NaN"
    and "i < length (frame_rows final_df)"
  shows "frame_rows (calculate_weighted_votes final_df weighting_method) = frame_rows final_df
       \<and> (\<exists>ws. weighted_points (calculate_weighted_votes final_df weighting_method) = Some ws
              \<and> length ws = length (frame_rows final_df)
              \<and> ws ! i \<in> {NaN, PInf, NInf})"
  using assms
  by (auto simp: weighting_divisor_def calculate_weighted_votes_def set_weighted_points_eq
        comp_def fdiv_NaN split: if_splits)

theorem zero_or_missing_divisor_is_silent_witness:
  "weighting_divisor ''Divide by total points'' (frame_rows (Frame [ex_row]) ! 0) = Some (Fin 0)
 \<and> frame_rows (calculate_weighted_votes (Frame [ex_row]) ''Divide by total points'') = [ex_row]
 \<and> (\<exists>ws. weighted_points (calculate_weighted_votes (Frame [ex_row]) ''Divide by total points'')
             = Some ws
         \<and> length ws = 1 \<and> ws ! 0 \<in> {NaN, PInf, NInf})"
proof -
  have h: "weighting_divisor ''Divide by total points'' (frame_rows (Frame [ex_row]) ! 0)
             = Some (Fin 0)"
    by (simp add: weighting_divisor_def ex_row_def)
  show ?thesis
    using h zero_or_missing_divisor_is_silent [OF h] by simp
qed

subsection \<open>Monotonicity of the node list\<close>

lemma node_filter_monotone:
  assumes "m1 \<le> m2"
  shows "length (snd (main_filters p m2 sel)) \<le> length (snd (main_filters p m1 sel))"
proof -
  obtain F C where p: "p = (F, C)" by (cases p)
  let ?Q = "\<lambda>n. country_name n \<in> set (map Some sel)"
  have "filter ?Q (filter (\<lambda>n. m2 \<le> count n) C)
      = filter (\<lambda>n. m2 \<le> count n) (filter ?Q (filter (\<lambda>n. m1 \<le> count n) C))"
    using assms by (induction C) auto
  then show ?thesis
    unfolding p snd_main_filters by (metis length_filter_le)
qed

text \<open>
  C9. With everything else unchanged, a larger \<open>min_participations\<close> never gives a
  longer node list, in either variant. (A run with one of the four weighting options
  returns its lists.)
\<close>

theorem min_participations_monotone:
  assumes "m1 \<le> m2" and "weighting_method \<in> set weighting_options"
  shows "(\<exists>o1 o2. main weighting_method m1 sel cs vs = Inr o1
            \<and> main weighting_method m2 sel cs vs = Inr o2
            \<and> length (nodelist o2) \<le> length (nodelist o1))
       \<and> (\<exists>o1 o2. main2 t3 fo weighting_method m1 sel cs vs cu = Inr o1
            \<and> main2 t3 fo weighting_method m2 sel cs vs cu = Inr o2
            \<and> length (nodelist o2) \<le> length (nodelist o1))"
proof
  obtain o1 o2 where o: "main weighting_method m1 sel cs vs = Inr o1"
      "main weighting_method m2 sel cs vs = Inr o2"
    using main_returns [OF assms(2)] by meson
  then have "length (nodelist o2) \<le> length (nodelist o1)"
    using node_filter_monotone [OF assms(1)] by (simp add: main_nodelist)
  with o show "\<exists>o1 o2. main weighting_method m1 sel cs vs = Inr o1
            \<and> main weighting_method m2 sel cs vs = Inr o2
            \<and> length (nodelist o2) \<le> length (nodelist o1)" by blast
next
  obtain o1 o2 where o: "main2 t3 fo weighting_method m1 sel cs vs cu = Inr o1"
      "main2 t3 fo weighting_method m2 sel cs vs cu = Inr o2"
    using main2_returns [OF assms(2)] by meson
  then have "length (nodelist o2) \<le> length (nodelist o1)"
    using node_filter_monotone [OF assms(1)] by (simp add: main2_nodelist)
  with o show "\<exists>o1 o2. main2 t3 fo weighting_method m1 sel cs vs cu = Inr o1
            \<and> main2 t3 fo weighting_method m2 sel cs vs cu = Inr o2
            \<and> length (nodelist o2) \<le> length (nodelist o1)" by blast
qed

theorem min_participations_monotone_witness:
  "(1::nat) \<le> 2 \<and> ''No weights'' \<in> set weighting_options
 \<and> (\<exists>o1 o2. main ''No weights'' 1 ex_selection ex_contestants ex_votes = Inr o1
        \<and> main ''No weights'' 2 ex_selection ex_contestants ex_votes = Inr o2
        \<and> length (nodelist o2) \<le> length (nodelist o1))
 \<and> (\<exists>o1 o2. main2 False False ''No weights'' 1 ex_selection ex_contestants ex_votes
            ([] :: unit cultural list) = Inr o1
        \<and> main2 False False ''No weights'' 2 ex_selection ex_contestants ex_votes
            ([] :: unit cultural list) = Inr o2
        \<and> length (nodelist o2) \<le> length (nodelist o1))"
proof -
  have h: "(1::nat) \<le> 2" "''No weights'' \<in> set weighting_options"
    by (simp_all add: weighting_options_def)
  show ?thesis
    using h min_participations_monotone [OF h, of ex_selection ex_contestants ex_votes
        False False "[] :: unit cultural list"]
    by simp
qed

subsection \<open>Rows and edges of a run\<close>

lemma frame_rows_set_weighted_points: "frame_rows (set_weighted_points f df) = frame_rows df"
  by (cases df) (simp_all add: comp_def)

lemma frame_rows_set_weighted_points_int64:
  "frame_rows (set_weighted_points_int64 f df) = frame_rows df"
  by (cases df) (simp_all add: comp_def)

lemma frame_rows_calculate_weighted_votes:
  "frame_rows (calculate_weighted_votes final_df weighting_method) = frame_rows final_df"
  by (simp add: calculate_weighted_votes_def frame_rows_set_weighted_points
        frame_rows_set_weighted_points_int64)

lemma groupby_sum_endpoints:
  assumes "groupby_sum df = Inr es" and "e \<in> set es"
  shows "\<exists>r\<in>set (frame_rows df). e_from_country e = from_country r \<and> e_to_country e = to_country r"
proof (cases df)
  case (Frame rs)
  with assms show ?thesis by simp
next
  case (FrameW rws)
  with assms have
    "(e_from_country e, e_to_country e)
       \<in> (\<lambda>rw. (from_country (fst rw), to_country (fst rw))) ` set rws"
    by force
  with FrameW show ?thesis by force
next
  case (FrameI rns)
  with assms have
    "(e_from_country e, e_to_country e)
       \<in> (\<lambda>rn. (from_country (fst rn), to_country (fst rn))) ` set rns"
    by force
  with FrameI show ?thesis by force
qed

lemma edge_columns_endpoints:
  assumes "edge_columns df = Inr es" and "e \<in> set es"
  shows "\<exists>r\<in>set (frame_rows df). e_from_country e = from_country r \<and> e_to_country e = to_country r"
  using assms by (cases df) force+

lemma to_dict_SomeD: "to_dict kvs k = Some v \<Longrightarrow> (k, v) \<in> set kvs"
  unfolding to_dict_def by (drule map_of_SomeD) simp

lemma filter_countries_rows:
  assumes "r \<in> set (frame_rows (filter_countries df C sel))"
  shows "r \<in> set (frame_rows df)
       \<and> (\<exists>n\<in>set C. country_id n = to_country r \<and> country_name n \<in> set (map Some sel))
       \<and> (\<exists>n\<in>set C. country_id n = from_country r \<and> country_name n \<in> set (map Some sel))"
proof -
  let ?m = "to_dict (zip (map country_name C) (map country_id C))"
  let ?ids = "concat (map (\<lambda>country. case ?m (Some country) of None \<Rightarrow> [] | Some i \<Rightarrow> [i]) sel)"
  have ids: "\<exists>n\<in>set C. country_id n = i \<and> country_name n \<in> set (map Some sel)"
    if "i \<in> set ?ids" for i
  proof -
    from that obtain c where c: "c \<in> set sel" "?m (Some c) = Some i"
      by (auto split: option.splits)
    from to_dict_SomeD [OF c(2)] obtain n where "n \<in> set C" "country_name n = Some c" "country_id n = i"
      by (auto simp: zip_map_map zip_same_conv_map)
    with c(1) show ?thesis by auto
  qed
  from assms have "r \<in> set (frame_rows df)" "to_country r \<in> set ?ids" "from_country r \<in> set ?ids"
    by (simp_all add: filter_countries_def Let_def frame_rows_select_rows)
  with ids show ?thesis by blast
qed

lemma main_filters_endpoints:
  assumes "r \<in> set (frame_rows (fst (main_filters p m sel)))"
  shows "to_country r \<in> country_id ` set (snd (main_filters p m sel))
       \<and> from_country r \<in> country_id ` set (snd (main_filters p m sel))"
proof -
  obtain F C where p: "p = (F, C)" by (cases p)
  let ?C1 = "filter (\<lambda>n. m \<le> count n) C"
  from assms obtain df where "r \<in> set (frame_rows (filter_countries df ?C1 sel))"
    unfolding p by (auto simp: main_filters_def Let_def)
  from filter_countries_rows [OF this] show ?thesis
    unfolding p snd_main_filters by force
qed

lemma main_edgelist:
  assumes "main w m sel cs vs = Inr out"
  shows "groupby_sum (select_rows (\<lambda>r. from_country r \<noteq> to_country r)
           (calculate_weighted_votes (fst (main_filters (preprocess_data cs vs) m sel)) w))
         = Inr (edgelist out)"
    and "edgelist_csv out = edgelist out"
  using assms by (auto simp: main_def Let_def split: prod.splits sum.splits)

lemma main2_edgelist:
  assumes "main2 t3 fo w m sel cs vs cu = Inr out"
  shows "\<exists>es. groupby_sum (select_rows (\<lambda>r. from_country r \<noteq> to_country r)
           (calculate_weighted_votes (fst (main_filters (preprocess_data2 cs vs cu t3 fo) m sel)) w))
         = Inr es \<and> edgelist out = filter (\<lambda>e. e_weighted_points e \<noteq> Fin 0) es"
    and "edge_columns (calculate_weighted_votes (fst (main_filters (preprocess_data2 cs vs cu t3 fo) m sel)) w)
         = Inr (edgelist_csv out)"
  using assms by (auto simp: main2_def Let_def split: prod.splits sum.splits)

subsection \<open>Referential integrity\<close>

text \<open>
  C5. In every run that returns, both endpoints of every edge, shown or written,
  are country ids of the node list.
\<close>

theorem edges_refer_to_nodes:
  "(\<forall>out. main w m sel cs vs = Inr out \<longrightarrow>
      (\<forall>e\<in>set (edgelist out) \<union> set (edgelist_csv out).
         e_from_country e \<in> country_id ` set (nodelist out)
       \<and> e_to_country e \<in> country_id ` set (nodelist out)))
 \<and> (\<forall>out. main2 t3 fo w m sel cs vs cu = Inr out \<longrightarrow>
      (\<forall>e\<in>set (edgelist out) \<union> set (edgelist_csv out).
         e_from_country e \<in> country_id ` set (nodelist out)
       \<and> e_to_country e \<in> country_id ` set (nodelist out)))"
proof (intro conjI allI impI ballI)
  fix out e
  assume out: "main w m sel cs vs = Inr out"
    and e: "e \<in> set (edgelist out) \<union> set (edgelist_csv out)"
  let ?p = "main_filters (preprocess_data cs vs) m sel"
  from e have "e \<in> set (edgelist out)" by (simp add: main_edgelist(2) [OF out])
  from groupby_sum_endpoints [OF main_edgelist(1) [OF out] this]
  obtain r where "r \<in> set (frame_rows (fst ?p))"
    "e_from_country e = from_country r" "e_to_country e = to_country r"
    by (auto simp: frame_rows_select_rows frame_rows_calculate_weighted_votes)
  with main_filters_endpoints [of r "preprocess_data cs vs" m sel]
  show "e_from_country e \<in> country_id ` set (nodelist out)"
    and "e_to_country e \<in> country_id ` set (nodelist out)"
    by (simp_all add: main_nodelist(1) [OF out])
next
  fix out e
  assume out: "main2 t3 fo w m sel cs vs cu = Inr out"
    and e: "e \<in> set (edgelist out) \<union> set (edgelist_csv out)"
  let ?p = "main_filters (preprocess_data2 cs vs cu t3 fo) m sel"
  let ?F = "calculate_weighted_votes (fst ?p) w"
  from main2_edgelist(1) [OF out] obtain es where
    es: "groupby_sum (select_rows (\<lambda>r. from_country r \<noteq> to_country r) ?F) = Inr es"
    "set (edgelist out) \<subseteq> set es"
    by auto
  have "\<exists>r\<in>set (frame_rows (fst ?p)).
          e_from_country e = from_country r \<and> e_to_country e = to_country r"
  proof (cases "e \<in> set (edgelist out)")
    case True
    with es(2) have "e \<in> set es" by blast
    from groupby_sum_endpoints [OF es(1) this] show ?thesis
      by (auto simp: frame_rows_select_rows frame_rows_calculate_weighted_votes)
  next
    case False
    with e have "e \<in> set (edgelist_csv out)" by simp
    from edge_columns_endpoints [OF main2_edgelist(2) [OF out] this] show ?thesis
      by (simp add: frame_rows_calculate_weighted_votes)
  qed
  then obtain r where "r \<in> set (frame_rows (fst ?p))"
    "e_from_country e = from_country r" "e_to_country e = to_country r"
    by blast
  with main_filters_endpoints [of r "preprocess_data2 cs vs cu t3 fo" m sel]
  show "e_from_country e \<in> country_id ` set (nodelist out)"
    and "e_to_country e \<in> country_id ` set (nodelist out)"
    by (simp_all add: main2_nodelist(1) [OF out])
qed

theorem edges_refer_to_nodes_witness:
  "(\<exists>out. main ''Divide by both'' 1 ex_selection ex_contestants ex_votes = Inr out
      \<and> edgelist out \<noteq> []
      \<and> e_from_country ` set (edgelist out) \<union> e_to_country ` set (edgelist out)
          \<subseteq> country_id ` set (nodelist out))
 \<and> (\<exists>out. main2 False False ''Divide by both'' 1 ex_selection ex_contestants ex_votes
          ([] :: unit cultural list) = Inr out
      \<and> edgelist_csv out \<noteq> []
      \<and> e_from_country ` set (edgelist_csv out) \<union> e_to_country ` set (edgelist_csv out)
          \<subseteq> country_id ` set (nodelist out))"
proof -
  note inst = edges_refer_to_nodes [of "''Divide by both''" 1 ex_selection ex_contestants ex_votes
      False False "[] :: unit cultural list"]
  have 1: "case main ''Divide by both'' 1 ex_selection ex_contestants ex_votes of
             Inl _ \<Rightarrow> False | Inr out \<Rightarrow> edgelist out \<noteq> []"
    by code_simp
  have 2: "case main2 False False ''Divide by both'' 1 ex_selection ex_contestants ex_votes
                  ([] :: unit cultural list) of
             Inl _ \<Rightarrow> False | Inr out \<Rightarrow> edgelist_csv out \<noteq> []"
    by code_simp
  from 1 obtain o1 where o1: "main ''Divide by both'' 1 ex_selection ex_contestants ex_votes = Inr o1"
    "edgelist o1 \<noteq> []"
    by (auto split: sum.splits)
  from 2 obtain o2 where o2: "main2 False False ''Divide by both'' 1 ex_selection ex_contestants ex_votes
                  ([] :: unit cultural list) = Inr o2" "edgelist_csv o2 \<noteq> []"
    by (auto split: sum.splits)
  from inst o1(1) have "e_from_country ` set (edgelist o1) \<union> e_to_country ` set (edgelist o1)
          \<subseteq> country_id ` set (nodelist o1)"
    by auto
  moreover from inst o2(1) have
    "e_from_country ` set (edgelist_csv o2) \<union> e_to_country ` set (edgelist_csv o2)
          \<subseteq> country_id ` set (nodelist o2)"
    by auto
  ultimately show ?thesis using o1 o2 by blast
qed

subsection \<open>Self-loops\<close>

lemma shown_edges_have_no_self_loop:
  "(\<forall>out. main w m sel cs vs = Inr out \<longrightarrow>
      (\<forall>e\<in>set (edgelist out) \<union> set (edgelist_csv out). e_from_country e \<noteq> e_to_country e))
 \<and> (\<forall>out. main2 t3 fo w m sel cs vs cu = Inr out \<longrightarrow>
      (\<forall>e\<in>set (edgelist out). e_from_country e \<noteq> e_to_country e))"
proof (intro conjI allI impI ballI)
  fix out e
  assume out: "main w m sel cs vs = Inr out"
    and e: "e \<in> set (edgelist out) \<union> set (edgelist_csv out)"
  then have "e \<in> set (edgelist out)" by (simp add: main_edgelist(2) [OF out])
  from groupby_sum_endpoints [OF main_edgelist(1) [OF out] this]
  show "e_from_country e \<noteq> e_to_country e"
    by (auto simp: frame_rows_select_rows)
next
  fix out e
  assume out: "main2 t3 fo w m sel cs vs cu = Inr out" and e: "e \<in> set (edgelist out)"
  from main2_edgelist(1) [OF out] obtain es where
    es: "groupby_sum (select_rows (\<lambda>r. from_country r \<noteq> to_country r)
           (calculate_weighted_votes
              (fst (main_filters (preprocess_data2 cs vs cu t3 fo) m sel)) w)) = Inr es"
    "set (edgelist out) \<subseteq> set es"
    by auto
  with e have "e \<in> set es" by blast
  from groupby_sum_endpoints [OF es(1) this]
  show "e_from_country e \<noteq> e_to_country e"
    by (auto simp: frame_rows_select_rows)
qed

text \<open>
  C4. No emitted edge list has an edge from a country to itself. The edge list that
  variant 2 offers for download is \<open>final_df\<close> itself, not \<open>eurovision_votes\<close>: a
  vote of Germany for itself is written as a row of it.
\<close>

theorem main2_download_keeps_self_loop:
  "main2 False False ''No weights'' 1 [''Germany''] ex_contestants ex_self_vote
     ([] :: unit cultural list)
   = Inr \<lparr>edgelist = [],
          nodelist = [\<lparr>country_id = ''DE'', country_name = Some ''Germany'', count = 1,
                       cultural_dimensions = None\<rparr>],
          edgelist_csv = [\<lparr>e_from_country = ''DE'', e_to_country = ''DE'',
                           e_weighted_points = Fin 12\<rparr>],
          nodelist_csv = [\<lparr>country_id = ''DE'', country_name = Some ''Germany'', count = 1,
                           cultural_dimensions = None\<rparr>]\<rparr>"
  by code_simp

subsection \<open>One node per country\<close>

text \<open>
  C3. A country id recorded under several names has exactly one row in the node
  list, with the first name seen. Variant 1 groups by the pair of label and name:
  Germany, entered as Germany in 2021 and as Deutschland in 2022, gets two rows.
  Variant 2 groups by the id and gives one row, named Germany (in general:
  \<open>main2_one_row_per_country\<close> and \<open>preprocess_data2_first_seen_name\<close> below).
\<close>

theorem main_fragments_renamed_country:
  "main ''No weights'' 1 ex_selection ex_contestants ex_votes
   = Inr \<lparr>edgelist =
            [\<lparr>e_from_country = ''DE'', e_to_country = ''ES'', e_weighted_points = Fin 8\<rparr>,
             \<lparr>e_from_country = ''DE'', e_to_country = ''FR'', e_weighted_points = Fin 12\<rparr>,
             \<lparr>e_from_country = ''ES'', e_to_country = ''DE'', e_weighted_points = Fin 5\<rparr>,
             \<lparr>e_from_country = ''FR'', e_to_country = ''DE'', e_weighted_points = Fin 17\<rparr>],
          nodelist =
            [\<lparr>country_id = ''DE'', country_name = Some ''Deutschland'', count = 1\<rparr>,
             \<lparr>country_id = ''DE'', country_name = Some ''Germany'', count = 1\<rparr>,
             \<lparr>country_id = ''ES'', country_name = Some ''Spain'', count = 1\<rparr>,
             \<lparr>country_id = ''FR'', country_name = Some ''France'', count = 1\<rparr>],
          edgelist_csv =
            [\<lparr>e_from_country = ''DE'', e_to_country = ''ES'', e_weighted_points = Fin 8\<rparr>,
             \<lparr>e_from_country = ''DE'', e_to_country = ''FR'', e_weighted_points = Fin 12\<rparr>,
             \<lparr>e_from_country = ''ES'', e_to_country = ''DE'', e_weighted_points = Fin 5\<rparr>,
             \<lparr>e_from_country = ''FR'', e_to_country = ''DE'', e_weighted_points = Fin 17\<rparr>],
          nodelist_csv =
            [\<lparr>country_id = ''DE'', country_name = Some ''Deutschland'', count = 1\<rparr>,
             \<lparr>country_id = ''DE'', country_name = Some ''Germany'', count = 1\<rparr>,
             \<lparr>country_id = ''ES'', country_name = Some ''Spain'', count = 1\<rparr>,
             \<lparr>country_id = ''FR'', country_name = Some ''France'', count = 1\<rparr>]\<rparr>"
  by code_simp

lemma main2_keeps_renamed_country_whole:
  "case main2 False False ''No weights'' 1 ex_selection ex_contestants ex_votes
          ([] :: unit cultural list) of
     Inl _ \<Rightarrow> False
   | Inr out \<Rightarrow>
       nodelist out =
         [\<lparr>country_id = ''DE'', country_name = Some ''Germany'', count = 2,
           cultural_dimensions = None\<rparr>,
          \<lparr>country_id = ''ES'', country_name = Some ''Spain'', count = 1,
           cultural_dimensions = None\<rparr>,
          \<lparr>country_id = ''FR'', country_name = Some ''France'', count = 1,
           cultural_dimensions = None\<rparr>]"
  by code_simp

subsection \<open>Totals without weights\<close>

lemma sum_list_absent_key:
  fixes v :: int
  assumes "k0 \<notin> set ks"
  shows "(\<Sum>k\<leftarrow>ks. if k0 = k then v else 0) = 0"
  using assms by (induction ks) auto

lemma sum_list_single_key:
  fixes v :: int
  assumes "distinct ks" and "k0 \<in> set ks"
  shows "(\<Sum>k\<leftarrow>ks. if k0 = k then v else 0) = v"
  using assms by (induction ks) (auto simp: sum_list_absent_key)

lemma sum_list_groups:
  fixes p :: "'r \<Rightarrow> int"
  assumes "distinct ks" and "key ` set rs \<subseteq> set ks"
  shows "(\<Sum>k\<leftarrow>ks. \<Sum>r\<leftarrow>filter (\<lambda>r. key r = k) rs. p r) = (\<Sum>r\<leftarrow>rs. p r)"
  using assms(2)
proof (induction rs)
  case Nil
  then show ?case by simp
next
  case (Cons r rs)
  have "(\<Sum>k\<leftarrow>ks. \<Sum>r'\<leftarrow>filter (\<lambda>r'. key r' = k) (r # rs). p r')
      = (\<Sum>k\<leftarrow>ks. (if key r = k then p r else 0) + (\<Sum>r'\<leftarrow>filter (\<lambda>r'. key r' = k) rs. p r'))"
    by (intro arg_cong [where f = sum_list] map_cong) auto
  also have "\<dots> = (\<Sum>k\<leftarrow>ks. if key r = k then p r else 0)
                 + (\<Sum>k\<leftarrow>ks. \<Sum>r'\<leftarrow>filter (\<lambda>r'. key r' = k) rs. p r')"
    by (simp add: sum_list_addf)
  also have "\<dots> = p r + (\<Sum>r'\<leftarrow>rs. p r')"
    using Cons sum_list_single_key [OF assms(1), of "key r" "p r"] by simp
  finally show ?case by simp
qed

lemma sum_list_drop_zeros:
  fixes qs :: "rat list"
  shows "sum_list (filter (\<lambda>q. q \<noteq> 0) qs) = sum_list qs"
  by (induction qs) auto

lemma of_int_sum_list_map: "(\<Sum>x\<leftarrow>xs. (of_int (f x) :: rat)) = of_int (\<Sum>x\<leftarrow>xs. f x)"
  by (induction xs) auto

lemma wrap64_in_range: "in_int64 n \<Longrightarrow> wrap64 n = n"
  by (simp add: in_int64_def wrap64_def)

lemma groupby_sum_no_weights:
  fixes rs :: "('x final_row_scheme) list"
  assumes "groupby_sum (FrameI (map (\<lambda>r. (r, points_given r)) rs)) = Inr es"
    and fit: "group_sums_fit rs"
  shows "\<exists>qs. map e_weighted_points es = map Fin qs
            \<and> sum_list qs = of_int (sum_list (map points_given rs))"
proof -
  let ?key = "\<lambda>r. (from_country r, to_country r)"
  let ?ks = "sort (remdups (map ?key rs))"
  let ?g = "\<lambda>k. \<Sum>r\<leftarrow>filter (\<lambda>r. ?key r = k) rs. points_given r"
  have group: "int64_sum (map snd (filter (\<lambda>rn. ?key (fst rn) = k)
                  (map (\<lambda>r. (r, points_given r)) rs)))
             = ?g k" if "k \<in> set ?ks" for k
  proof -
    have "map snd (filter (\<lambda>rn. ?key (fst rn) = k) (map (\<lambda>r. (r, points_given r)) rs))
        = map points_given (filter (\<lambda>r. ?key r = k) rs)"
      by (simp add: filter_map comp_def)
    moreover from that obtain r where r: "r \<in> set rs" "k = ?key r" by auto
    have "filter (\<lambda>r'. ?key r' = k) rs
        = filter (\<lambda>r'. from_country r' = from_country r \<and> to_country r' = to_country r) rs"
      by (simp add: r(2))
    with fit r(1) have "in_int64 (?g k)"
      unfolding group_sums_fit_def by auto
    ultimately show ?thesis by (simp add: int64_sum_def wrap64_in_range)
  qed
  from assms(1) have "map e_weighted_points es
      = map (\<lambda>k. Fin (of_int (int64_sum (map snd (filter (\<lambda>rn. ?key (fst rn) = k)
                  (map (\<lambda>r. (r, points_given r)) rs)))))) ?ks"
    by (auto simp: comp_def)
  also have "\<dots> = map (\<lambda>k. Fin (of_int (?g k))) ?ks"
    by (rule map_cong [OF refl]) (simp only: group)
  finally have es: "map e_weighted_points es = map (\<lambda>k. Fin (of_int (?g k))) ?ks" .
  have "distinct ?ks" "?key ` set rs \<subseteq> set ?ks" by simp_all
  from sum_list_groups [OF this, of points_given]
  have "(\<Sum>k\<leftarrow>?ks. ?g k) = sum_list (map points_given rs)" .
  then have "sum_list (map (\<lambda>k. of_int (?g k) :: rat) ?ks) = of_int (sum_list (map points_given rs))"
    by (simp only: of_int_sum_list_map)
  with es show ?thesis
    by (intro exI [of _ "map (\<lambda>k. of_int (?g k)) ?ks"]) (simp add: comp_def)
qed

lemma drop_zero_edges_total:
  assumes "map e_weighted_points es = map Fin qs"
  shows "\<exists>qs'. map e_weighted_points (filter (\<lambda>e. e_weighted_points e \<noteq> Fin 0) es) = map Fin qs'
             \<and> sum_list qs' = sum_list qs"
proof -
  have "map e_weighted_points (filter (\<lambda>e. e_weighted_points e \<noteq> Fin 0) es)
      = filter (\<lambda>w. w \<noteq> Fin 0) (map e_weighted_points es)"
    by (simp add: filter_map comp_def)
  also have "\<dots> = map Fin (filter (\<lambda>q. q \<noteq> 0) qs)"
    by (simp add: assms filter_map comp_def)
  finally show ?thesis
    using sum_list_drop_zeros [of qs] by blast
qed

lemma select_rows_no_weights:
  "select_rows (\<lambda>r. from_country r \<noteq> to_country r)
       (calculate_weighted_votes final_df ''No weights'')
     = FrameI (map (\<lambda>r. (r, points_given r)) (surviving_rows final_df))"
  by (simp add: calculate_weighted_votes_def set_weighted_points_int64_eq filter_map comp_def
        surviving_rows_def)

text \<open>
  C7. Without weights, and where no pair's raw points leave the int64 range, the
  weighted points of the edges of \<open>eurovision_votes\<close> (the list both variants show and
  variant 1 writes) are finite and add up to the raw points of the votes that survive
  the filters and are no self-loops.
\<close>

theorem no_weights_preserves_total_in_int64:
  "(group_sums_fit (surviving_rows (fst (main_filters (preprocess_data cs vs) m sel))) \<longrightarrow>
      (\<exists>out qs. main ''No weights'' m sel cs vs = Inr out
         \<and> edgelist_csv out = edgelist out
         \<and> map e_weighted_points (edgelist out) = map Fin qs
         \<and> sum_list qs =
             of_int (\<Sum>r\<leftarrow>surviving_rows (fst (main_filters (preprocess_data cs vs) m sel)).
                       points_given r)))
 \<and> (group_sums_fit
        (surviving_rows (fst (main_filters (preprocess_data2 cs vs cu t3 fo) m sel))) \<longrightarrow>
      (\<exists>out qs. main2 t3 fo ''No weights'' m sel cs vs cu = Inr out
         \<and> map e_weighted_points (edgelist out) = map Fin qs
         \<and> sum_list qs =
             of_int (\<Sum>r\<leftarrow>surviving_rows
                            (fst (main_filters (preprocess_data2 cs vs cu t3 fo) m sel)).
                       points_given r)))"
proof (intro conjI impI)
  assume fit: "group_sums_fit (surviving_rows (fst (main_filters (preprocess_data cs vs) m sel)))"
  have w: "''No weights'' \<in> set weighting_options" by (simp add: weighting_options_def)
  obtain out where out: "main ''No weights'' m sel cs vs = Inr out"
    using main_returns [OF w] by blast
  from main_edgelist(1) [OF out]
  have "groupby_sum (FrameI (map (\<lambda>r. (r, points_given r))
          (surviving_rows (fst (main_filters (preprocess_data cs vs) m sel))))) = Inr (edgelist out)"
    by (simp only: select_rows_no_weights)
  from groupby_sum_no_weights [OF this fit]
  obtain qs where "map e_weighted_points (edgelist out) = map Fin qs"
    "sum_list qs =
          of_int (\<Sum>r\<leftarrow>surviving_rows (fst (main_filters (preprocess_data cs vs) m sel)).
                    points_given r)"
    by blast
  with out main_edgelist(2) [OF out]
  show "\<exists>out qs. main ''No weights'' m sel cs vs = Inr out
         \<and> edgelist_csv out = edgelist out
         \<and> map e_weighted_points (edgelist out) = map Fin qs
         \<and> sum_list qs =
             of_int (\<Sum>r\<leftarrow>surviving_rows (fst (main_filters (preprocess_data cs vs) m sel)).
                       points_given r)"
    by blast
next
  assume fit: "group_sums_fit
        (surviving_rows (fst (main_filters (preprocess_data2 cs vs cu t3 fo) m sel)))"
  have w: "''No weights'' \<in> set weighting_options" by (simp add: weighting_options_def)
  obtain out where out: "main2 t3 fo ''No weights'' m sel cs vs cu = Inr out"
    using main2_returns [OF w] by blast
  from main2_edgelist(1) [OF out] obtain es where es:
    "groupby_sum (select_rows (\<lambda>r. from_country r \<noteq> to_country r)
       (calculate_weighted_votes
          (fst (main_filters (preprocess_data2 cs vs cu t3 fo) m sel)) ''No weights'')) = Inr es"
    "edgelist out = filter (\<lambda>e. e_weighted_points e \<noteq> Fin 0) es"
    by blast
  from es(1)
  have "groupby_sum (FrameI (map (\<lambda>r. (r, points_given r))
          (surviving_rows (fst (main_filters (preprocess_data2 cs vs cu t3 fo) m sel))))) = Inr es"
    by (simp only: select_rows_no_weights)
  from groupby_sum_no_weights [OF this fit]
  obtain qs where qs: "map e_weighted_points es = map Fin qs"
    "sum_list qs =
          of_int (\<Sum>r\<leftarrow>surviving_rows
                         (fst (main_filters (preprocess_data2 cs vs cu t3 fo) m sel)).
                    points_given r)"
    by blast
  from drop_zero_edges_total [OF qs(1)] obtain qs' where
    "map e_weighted_points (edgelist out) = map Fin qs'" "sum_list qs' = sum_list qs"
    unfolding es(2) by blast
  with qs(2) out
  show "\<exists>out qs. main2 t3 fo ''No weights'' m sel cs vs cu = Inr out
         \<and> map e_weighted_points (edgelist out) = map Fin qs
         \<and> sum_list qs =
             of_int (\<Sum>r\<leftarrow>surviving_rows
                            (fst (main_filters (preprocess_data2 cs vs cu t3 fo) m sel)).
                       points_given r)"
    by auto
qed

theorem no_weights_preserves_total_in_int64_witness:
  "group_sums_fit
     (surviving_rows (fst (main_filters (preprocess_data ex_contestants ex_votes) 1 ex_selection)))
 \<and> (\<exists>out qs. main ''No weights'' 1 ex_selection ex_contestants ex_votes = Inr out
        \<and> edgelist_csv out = edgelist out
        \<and> map e_weighted_points (edgelist out) = map Fin qs
        \<and> sum_list qs =
            of_int (\<Sum>r\<leftarrow>surviving_rows
                           (fst (main_filters (preprocess_data ex_contestants ex_votes) 1
                                   ex_selection)).
                      points_given r))
 \<and> group_sums_fit
     (surviving_rows
        (fst (main_filters
                (preprocess_data2 ex_contestants ex_votes ([] :: unit cultural list) False False)
                1 ex_selection)))
 \<and> (\<exists>out qs. main2 False False ''No weights'' 1 ex_selection ex_contestants ex_votes
                   ([] :: unit cultural list) = Inr out
        \<and> map e_weighted_points (edgelist out) = map Fin qs
        \<and> sum_list qs =
            of_int (\<Sum>r\<leftarrow>surviving_rows
                           (fst (main_filters
                                   (preprocess_data2 ex_contestants ex_votes
                                      ([] :: unit cultural list) False False)
                                   1 ex_selection)).
                      points_given r))"
proof -
  have h1: "group_sums_fit
     (surviving_rows (fst (main_filters (preprocess_data ex_contestants ex_votes) 1 ex_selection)))"
    by code_simp
  have h2: "group_sums_fit
     (surviving_rows
        (fst (main_filters
                (preprocess_data2 ex_contestants ex_votes ([] :: unit cultural list) False False)
                1 ex_selection)))"
    by code_simp
  from no_weights_preserves_total_in_int64 [of ex_contestants ex_votes 1 ex_selection
      "[] :: unit cultural list" False False] h1 h2
  show ?thesis by blast
qed

text \<open>
  C7 as stated, for every input and every emitted edge list, fails. The sum of a group
  is an int64 sum: France's two votes of \<open>2^62\<close> points for Germany give the edge
  weight \<open>-2^63\<close>, and the edges add up to \<open>-2^63 + 1\<close> against raw points of
  \<open>2^63 + 1\<close>. And the list that variant 2 writes holds Germany's 12 points for
  itself, against surviving raw points of 0.
\<close>

theorem no_weights_total_counterexample:
  "shown_total (main ''No weights'' 1 ex_selection ex_contestants ex_votes_big)
     = Some (Fin (- 9223372036854775807))
 \<and> sum_list (map points_given
       (surviving_rows
          (fst (main_filters (preprocess_data ex_contestants ex_votes_big) 1 ex_selection))))
     = 9223372036854775809
 \<and> shown_total (main2 False False ''No weights'' 1 ex_selection ex_contestants ex_votes_big
       ([] :: unit cultural list))
     = Some (Fin (- 9223372036854775807))
 \<and> sum_list (map points_given
       (surviving_rows
          (fst (main_filters
                  (preprocess_data2 ex_contestants ex_votes_big ([] :: unit cultural list)
                     False False)
                  1 ex_selection))))
     = 9223372036854775809
 \<and> written_total (main2 False False ''No weights'' 1 [''Germany''] ex_contestants ex_self_vote
       ([] :: unit cultural list))
     = Some (Fin 12)
 \<and> sum_list (map points_given
       (surviving_rows
          (fst (main_filters
                  (preprocess_data2 ex_contestants ex_self_vote ([] :: unit cultural list)
                     False False)
                  1 [''Germany'']))))
     = 0"
  by code_simp

subsection \<open>The fields \<open>points_sf\<close> and \<open>points_final\<close>\<close>

lemma select_rows_map_rows:
  assumes "\<And>r. P' (h r) = P r"
  shows "select_rows P' (map_rows h df) = map_rows h (select_rows P df)"
  using assms by (cases df) (simp_all add: filter_map comp_def)

lemma filter_countries_map_rows:
  assumes "\<And>r. to_country (h r) = to_country r" "\<And>r. from_country (h r) = from_country r"
  shows "filter_countries (map_rows h df) C sel = map_rows h (filter_countries df C sel)"
  unfolding filter_countries_def Let_def
  by (rule select_rows_map_rows) (simp add: assms)

lemma main_filters_map_rows:
  assumes "\<And>r. to_country (h r) = to_country r" "\<And>r. from_country (h r) = from_country r"
  shows "main_filters (map_rows h df, C) m sel
       = (map_rows h (fst (main_filters (df, C) m sel)), snd (main_filters (df, C) m sel))"
  by (simp add: main_filters_def Let_def select_rows_map_rows filter_countries_map_rows assms)

lemma groupby_sum_map_rows:
  assumes "\<And>r. to_country (h r) = to_country r" "\<And>r. from_country (h r) = from_country r"
  shows "groupby_sum (map_rows h df) = groupby_sum df"
  by (cases df) (simp_all add: comp_def filter_map assms)

lemma edge_columns_map_rows:
  assumes "\<And>r. to_country (h r) = to_country r" "\<And>r. from_country (h r) = from_country r"
  shows "edge_columns (map_rows h df) = edge_columns df"
  by (cases df) (simp_all add: comp_def assms)

lemma set_weighted_points_map_rows:
  assumes "\<And>r. f' (h r) = f r"
  shows "set_weighted_points f' (map_rows h df) = map_rows h (set_weighted_points f df)"
  by (cases df) (simp_all add: comp_def assms)

lemma set_weighted_points_int64_map_rows:
  assumes "\<And>r. f' (h r) = f r"
  shows "set_weighted_points_int64 f' (map_rows h df)
       = map_rows h (set_weighted_points_int64 f df)"
  by (cases df) (simp_all add: comp_def assms)

lemma calculate_weighted_votes_zero_total:
  assumes "w \<noteq> ''Divide by total points''" "w \<noteq> ''Divide by both''"
  shows "calculate_weighted_votes (map_rows (\<lambda>r. r\<lparr>total_points_f := NaN\<rparr>) df) w
       = map_rows (\<lambda>r. r\<lparr>total_points_f := NaN\<rparr>) (calculate_weighted_votes df w)"
  using assms
  by (simp add: calculate_weighted_votes_def set_weighted_points_map_rows
        set_weighted_points_int64_map_rows)

lemma pd_merge_without_points:
  "pd_merge (map without_points vs) cs = map without_points (pd_merge vs cs)"
  by (induction vs)
     (auto simp: pd_merge_def without_points_def vote.defs merged_vote.defs split: list.splits)

lemma normalize_rounds_without_points:
  "normalize_rounds (map without_points vs) = map without_points (normalize_rounds vs)"
  by (simp add: normalize_rounds_def without_points_def)

lemma top3_final_filters_without_points:
  "top3_final_filters t3 fo (map without_points vs) = map without_points (top3_final_filters t3 fo vs)"
  by (simp add: top3_final_filters_def without_points_def filter_map comp_def)

lemma add_total_points_overall_without_points:
  "add_total_points_overall (map without_points ms)
     = map (\<lambda>r. (without_points r)\<lparr>total_points_overall := NaN\<rparr>) (add_total_points_overall ms)"
  by (simp add: add_total_points_overall_def without_points_def merged_vote.defs merged_row.defs)

lemma preprocess_data_without_points:
  "preprocess_data cs (map without_points vs)
     = (map_rows (\<lambda>r. r\<lparr>total_points_f := NaN\<rparr>) (fst (preprocess_data cs vs)),
        snd (preprocess_data cs vs))"
  by (simp add: preprocess_data_def Let_def normalize_rounds_without_points
        pd_merge_without_points add_total_points_overall_without_points comp_def without_points_def)

lemma preprocess_data2_without_points:
  "preprocess_data2 cs (map without_points vs) cu t3 fo
     = (map_rows (\<lambda>r. r\<lparr>total_points_f := NaN\<rparr>) (fst (preprocess_data2 cs vs cu t3 fo)),
        snd (preprocess_data2 cs vs cu t3 fo))"
  by (simp add: preprocess_data2_def Let_def normalize_rounds_without_points
        top3_final_filters_without_points
        pd_merge_without_points add_total_points_overall_without_points comp_def without_points_def)

lemma main_without_points:
  assumes "w \<noteq> ''Divide by total points''" "w \<noteq> ''Divide by both''"
  shows "main w m sel cs (map without_points vs) = main w m sel cs vs"
proof -
  obtain F C where p: "preprocess_data cs vs = (F, C)" by (cases "preprocess_data cs vs")
  obtain F' C' where f: "main_filters (F, C) m sel = (F', C')" by (cases "main_filters (F, C) m sel")
  show ?thesis
    by (simp add: main_def preprocess_data_without_points p main_filters_map_rows f
          calculate_weighted_votes_zero_total [OF assms] select_rows_map_rows groupby_sum_map_rows)
qed

lemma main2_without_points:
  assumes "w \<noteq> ''Divide by total points''" "w \<noteq> ''Divide by both''"
  shows "main2 t3 fo w m sel cs (map without_points vs) cu = main2 t3 fo w m sel cs vs cu"
proof -
  obtain F C where p: "preprocess_data2 cs vs cu t3 fo = (F, C)"
    by (cases "preprocess_data2 cs vs cu t3 fo")
  obtain F' C' where f: "main_filters (F, C) m sel = (F', C')" by (cases "main_filters (F, C) m sel")
  show ?thesis
    by (simp add: main2_def preprocess_data2_without_points p main_filters_map_rows f
          calculate_weighted_votes_zero_total [OF assms] select_rows_map_rows groupby_sum_map_rows
          edge_columns_map_rows Let_def cong: sum.case_cong)
qed

text \<open>
  C1. Two record sets that differ only in the fields \<open>points_sf\<close> and \<open>points_final\<close>
  of the votes give the same edge and node lists, under every weighting method other
  than the division by total points and the division by both.
\<close>

theorem points_fields_unobservable_without_total:
  assumes "differ_only_in_points votes_df votes_df'"
    and "weighting_method \<noteq> ''Divide by total points''"
    and "weighting_method \<noteq> ''Divide by both''"
  shows "main weighting_method m sel cs votes_df = main weighting_method m sel cs votes_df'
       \<and> main2 t3 fo weighting_method m sel cs votes_df cu
           = main2 t3 fo weighting_method m sel cs votes_df' cu"
proof -
  from assms(1) have eq: "map without_points votes_df = map without_points votes_df'"
    by (simp add: differ_only_in_points_def)
  have "main weighting_method m sel cs votes_df
      = main weighting_method m sel cs (map without_points votes_df)"
    by (simp add: main_without_points [OF assms(2,3)])
  also have "\<dots> = main weighting_method m sel cs votes_df'"
    unfolding eq by (simp add: main_without_points [OF assms(2,3)])
  finally have 1: "main weighting_method m sel cs votes_df = main weighting_method m sel cs votes_df'" .
  have "main2 t3 fo weighting_method m sel cs votes_df cu
      = main2 t3 fo weighting_method m sel cs (map without_points votes_df) cu"
    by (simp add: main2_without_points [OF assms(2,3)])
  also have "\<dots> = main2 t3 fo weighting_method m sel cs votes_df' cu"
    unfolding eq by (simp add: main2_without_points [OF assms(2,3)])
  finally show ?thesis using 1 by simp
qed

theorem points_fields_unobservable_without_total_witness:
  "differ_only_in_points ex_votes ex_votes_other_points
 \<and> main ''Divide by participation count'' 1 ex_selection ex_contestants ex_votes
     = main ''Divide by participation count'' 1 ex_selection ex_contestants ex_votes_other_points
 \<and> main2 False False ''Divide by participation count'' 1 ex_selection ex_contestants ex_votes
       ([] :: unit cultural list)
     = main2 False False ''Divide by participation count'' 1 ex_selection ex_contestants
         ex_votes_other_points ([] :: unit cultural list)"
proof -
  have h: "differ_only_in_points ex_votes ex_votes_other_points"
    by code_simp
  have w: "''Divide by participation count'' \<noteq> ''Divide by total points''"
    "''Divide by participation count'' \<noteq> ''Divide by both''"
    by simp_all
  show ?thesis
    using h points_fields_unobservable_without_total [OF h w, of 1 ex_selection ex_contestants
        False False "[] :: unit cultural list"]
    by simp
qed

text \<open>
  C1 as stated, for every configuration, fails: under the division by total points
  (and by both) the divisor is \<open>total_points_overall\<close>, renamed \<open>total_points\<close>, which
  is read from these fields.
\<close>

theorem points_fields_unobservable_counterexample:
  "differ_only_in_points ex_votes ex_votes_other_points
 \<and> main ''Divide by total points'' 1 ex_selection ex_contestants ex_votes
     \<noteq> main ''Divide by total points'' 1 ex_selection ex_contestants ex_votes_other_points
 \<and> main2 False False ''Divide by total points'' 1 ex_selection ex_contestants ex_votes
       ([] :: unit cultural list)
     \<noteq> main2 False False ''Divide by total points'' 1 ex_selection ex_contestants
         ex_votes_other_points ([] :: unit cultural list)"
  by code_simp

subsection \<open>The division by total points\<close>

text \<open>
  C2. Under the division by total points, the weighted points of a merged vote are its
  raw points divided by the column \<open>total_points\<close> of \<open>final_df\<close>, which is
  \<open>total_points_overall\<close>: \<open>points_final\<close> of the merged vote when its round is the
  final, \<open>points_sf\<close> otherwise.
\<close>

theorem by_total_divides_by_total_points_overall:
  "weighted_points (calculate_weighted_votes final_df ''Divide by total points'')
     = Some (map (\<lambda>r. fdiv (Fin (of_int (points_given r))) (total_points_f r))
               (frame_rows final_df))
 \<and> map (\<lambda>r. (points_given r, total_points_f r)) (frame_rows (fst (preprocess_data cs vs)))
     = map (\<lambda>v. (total_points v, if round' v = ''final'' then points_final v else points_sf v))
         (pd_merge (normalize_rounds vs) cs)
 \<and> map (\<lambda>r. (points_given r, total_points_f r))
       (frame_rows (fst (preprocess_data2 cs vs cu t3 fo)))
     = map (\<lambda>v. (total_points v, if round' v = ''final'' then points_final v else points_sf v))
         (pd_merge (top3_final_filters t3 fo (normalize_rounds vs)) cs)"
proof (intro conjI)
  show "weighted_points (calculate_weighted_votes final_df ''Divide by total points'')
     = Some (map (\<lambda>r. fdiv (Fin (of_int (points_given r))) (total_points_f r))
               (frame_rows final_df))"
    by (simp add: calculate_weighted_votes_def set_weighted_points_eq comp_def)
  show "map (\<lambda>r. (points_given r, total_points_f r)) (frame_rows (fst (preprocess_data cs vs)))
     = map (\<lambda>v. (total_points v, if round' v = ''final'' then points_final v else points_sf v))
         (pd_merge (normalize_rounds vs) cs)"
    by (simp add: preprocess_data_def Let_def add_total_points_overall_def comp_def
          merged_vote.defs merged_row.defs)
  show "map (\<lambda>r. (points_given r, total_points_f r))
       (frame_rows (fst (preprocess_data2 cs vs cu t3 fo)))
     = map (\<lambda>v. (total_points v, if round' v = ''final'' then points_final v else points_sf v))
         (pd_merge (top3_final_filters t3 fo (normalize_rounds vs)) cs)"
    by (simp add: preprocess_data2_def Let_def add_total_points_overall_def comp_def
          merged_vote.defs merged_row.defs)
qed

text \<open>
  C2 as stated, with the total points awarded by the voting country in that round as
  the divisor, fails: France's 10 points of 2021 are divided by 200, not by the 10
  points France awarded.
\<close>

theorem by_total_counterexample:
  "weighted_points (calculate_weighted_votes (fst (preprocess_data ex_contestants ex_votes))
      ''Divide by total points'')
     = Some [Fin (1 / 20), Fin (1 / 40), Fin (3 / 25), NaN, Fin (3 / 200), Fin (7 / 150)]
 \<and> map (by_total_of_spec (normalize_rounds ex_votes)) (normalize_rounds ex_votes)
     = [Fin 1, Fin 1, Fin (12 / 23), Fin (8 / 23), Fin (3 / 23), Fin 1]
 \<and> weighted_points (calculate_weighted_votes (fst (preprocess_data ex_contestants ex_votes))
      ''Divide by total points'')
     \<noteq> Some (map (by_total_of_spec (normalize_rounds ex_votes)) (normalize_rounds ex_votes))
 \<and> weighted_points (calculate_weighted_votes
        (fst (preprocess_data2 ex_contestants ex_votes ([] :: unit cultural list) False False))
      ''Divide by total points'')
     \<noteq> Some (map (by_total_of_spec (normalize_rounds ex_votes)) (normalize_rounds ex_votes))"
  by code_simp

subsection \<open>Participation counts\<close>

lemma merge_cultural_node:
  assumes "n \<in> set (merge_cultural base cu)"
  shows "\<exists>b\<in>set base. country_id n = country_id b \<and> country_name n = country_name b
            \<and> count n = count b"
proof -
  from assms obtain b where b: "b \<in> set base"
    and n: "n \<in> set (case filter (\<lambda>c. cu_country_id c = country_id b) cu of
                 [] \<Rightarrow> [node.extend b (node2.fields None)]
               | cs \<Rightarrow> map (\<lambda>c. node.extend b (node2.fields (Some (dimensions c)))) cs)"
    by (auto simp: merge_cultural_def)
  from n have "\<exists>x. n = node.extend b (node2.fields x)"
    by (cases "filter (\<lambda>c. cu_country_id c = country_id b) cu") auto
  then have "country_id n = country_id b \<and> country_name n = country_name b \<and> count n = count b"
    by (auto simp: node.defs node2.defs)
  with b show ?thesis by blast
qed

lemma set_drop_duplicates: "set (drop_duplicates xs) = set xs"
  by (simp add: drop_duplicates_def)

lemma distinct_drop_duplicates: "distinct (drop_duplicates xs)"
  by (simp add: drop_duplicates_def)

lemma merged_tuples:
  "(\<lambda>r. (year r, round' r, to_country_x r, to_country_y r, to_country_id r))
      ` set (add_total_points_overall (pd_merge V cs))
   = (\<Union>v\<in>set V.
        (\<lambda>y. (year v, round' v, to_country_x v, y, to_country_id v))
          ` set (case filter (\<lambda>c. c_year c = year v \<and> c_to_country_id c = to_country_id v) cs of
                   [] \<Rightarrow> [None]
                 | ms \<Rightarrow> map (\<lambda>c. Some (c_to_country c)) ms))"
  (is "?L = ?R")
proof -
  have "?L = (\<lambda>r. (year r, round' r, to_country_x r, to_country_y r, to_country_id r))
      ` set (pd_merge V cs)"
    by (simp add: add_total_points_overall_def image_image merged_vote.defs merged_row.defs)
  also have "\<dots> = ?R"
    by (induction V)
       (auto simp: pd_merge_def vote.defs merged_vote.defs image_Un image_image
          split: list.splits)
  finally show ?thesis .
qed

lemma one_name_per_key:
  assumes "names_agree cs"
    and "y \<in> set (case filter (\<lambda>c. c_year c = yr \<and> c_to_country_id c = i) cs of
                     [] \<Rightarrow> [None] | ms \<Rightarrow> map (\<lambda>c. Some (c_to_country c)) ms)"
    and "y' \<in> set (case filter (\<lambda>c. c_year c = yr \<and> c_to_country_id c = i) cs of
                     [] \<Rightarrow> [None] | ms \<Rightarrow> map (\<lambda>c. Some (c_to_country c)) ms)"
  shows "y = y'"
proof (cases "filter (\<lambda>c. c_year c = yr \<and> c_to_country_id c = i) cs")
  case Nil
  with assms(2,3) show ?thesis by simp
next
  case (Cons c ms)
  with assms(2,3) obtain d d' where
    d: "d \<in> set (filter (\<lambda>c. c_year c = yr \<and> c_to_country_id c = i) cs)" "y = Some (c_to_country d)"
    and d': "d' \<in> set (filter (\<lambda>c. c_year c = yr \<and> c_to_country_id c = i) cs)" "y' = Some (c_to_country d')"
    by auto
  from d(1) d'(1) assms(1) have "c_to_country d = c_to_country d'"
    unfolding names_agree_def by auto
  with d(2) d'(2) show ?thesis by simp
qed

lemma some_name_per_key:
  "\<exists>y. y \<in> set (case filter P cs of [] \<Rightarrow> [None] | ms \<Rightarrow> map (\<lambda>c. Some (c_to_country c)) ms)"
  by (cases "filter P cs") auto

lemma card_tuples_by_year_round:
  fixes Y :: "vote \<Rightarrow> string option set"
  assumes labels: "labels_agree V"
    and some: "\<And>v. \<exists>y. y \<in> Y v"
    and one: "\<And>u v y y'. year u = year v \<Longrightarrow> to_country_id u = to_country_id v
                 \<Longrightarrow> y \<in> Y u \<Longrightarrow> y' \<in> Y v \<Longrightarrow> y = y'"
  shows "card {t \<in> (\<Union>v\<in>set V.
                      (\<lambda>y. (year v, round' v, to_country_x v, y, to_country_id v)) ` Y v).
               snd (snd (snd (snd t))) = i}
       = distinct_year_rounds V i"
proof -
  let ?S = "{t \<in> (\<Union>v\<in>set V.
                      (\<lambda>y. (year v, round' v, to_country_x v, y, to_country_id v)) ` Y v).
               snd (snd (snd (snd t))) = i}"
  let ?h = "\<lambda>t :: int \<times> string \<times> string \<times> string option \<times> string. (fst t, fst (snd t))"
  let ?g = "\<lambda>v :: vote. (year v, round' v)"
  let ?A = "{v \<in> set V. to_country_id v = i}"
  have S: "t \<in> ?S \<longleftrightarrow>
      (\<exists>v\<in>?A. \<exists>y\<in>Y v. t = (year v, round' v, to_country_x v, y, i))" for t
    by auto
  have img: "?h ` ?S = ?g ` ?A"
  proof (intro set_eqI iffI)
    fix p assume "p \<in> ?h ` ?S"
    then obtain t where t: "t \<in> ?S" "p = ?h t" by blast
    from t(1) obtain v y where "v \<in> ?A" "t = (year v, round' v, to_country_x v, y, i)"
      unfolding S by blast
    with t(2) show "p \<in> ?g ` ?A" by simp
  next
    fix p assume "p \<in> ?g ` ?A"
    then obtain v where v: "v \<in> ?A" "p = ?g v" by blast
    from some obtain y where "y \<in> Y v" by blast
    with v(1) have "(year v, round' v, to_country_x v, y, i) \<in> ?S"
      unfolding S by blast
    then have "?h (year v, round' v, to_country_x v, y, i) \<in> ?h ` ?S" by (rule imageI)
    with v(2) show "p \<in> ?h ` ?S" by simp
  qed
  have inj: "inj_on ?h ?S"
  proof (rule inj_onI)
    fix t t' assume t: "t \<in> ?S" and t': "t' \<in> ?S" and eq: "?h t = ?h t'"
    from t obtain v y where v: "v \<in> ?A" "y \<in> Y v" "t = (year v, round' v, to_country_x v, y, i)"
      unfolding S by blast
    from t' obtain u y' where u: "u \<in> ?A" "y' \<in> Y u" "t' = (year u, round' u, to_country_x u, y', i)"
      unfolding S by blast
    from eq v(3) u(3) have yr: "year v = year u" "round' v = round' u" by simp_all
    from v(1) u(1) have id: "to_country_id v = to_country_id u" "v \<in> set V" "u \<in> set V"
      by simp_all
    from labels id yr have x: "to_country_x v = to_country_x u"
      unfolding labels_agree_def by blast
    from one [OF yr(1) id(1) v(2) u(2)] have "y = y'" .
    with v(3) u(3) yr x show "t = t'" by simp
  qed
  have "card ?S = card (?h ` ?S)" by (rule card_image [OF inj, symmetric])
  also have "\<dots> = card (?g ` ?A)" by (simp only: img)
  also have "\<dots> = distinct_year_rounds V i"
    by (simp add: distinct_year_rounds_def length_remdups_card_conv)
  finally show ?thesis .
qed

lemma card_tuples_of_country:
  assumes "labels_agree V" and "names_agree cs"
  shows "card {t \<in> (\<lambda>r. (year r, round' r, to_country_x r, to_country_y r, to_country_id r))
                     ` set (add_total_points_overall (pd_merge V cs)).
               snd (snd (snd (snd t))) = i}
       = distinct_year_rounds V i"
  unfolding merged_tuples
proof (rule card_tuples_by_year_round [OF assms(1)])
  fix v :: vote
  show "\<exists>y. y \<in> set (case filter (\<lambda>c. c_year c = year v \<and> c_to_country_id c = to_country_id v) cs of
                   [] \<Rightarrow> [None] | ms \<Rightarrow> map (\<lambda>c. Some (c_to_country c)) ms)"
    by (rule some_name_per_key)
next
  fix u v :: vote and y y'
  assume eq: "year u = year v" "to_country_id u = to_country_id v"
    and y: "y \<in> set (case filter (\<lambda>c. c_year c = year u \<and> c_to_country_id c = to_country_id u) cs of
                   [] \<Rightarrow> [None] | ms \<Rightarrow> map (\<lambda>c. Some (c_to_country c)) ms)"
    and y': "y' \<in> set (case filter (\<lambda>c. c_year c = year v \<and> c_to_country_id c = to_country_id v) cs of
                   [] \<Rightarrow> [None] | ms \<Rightarrow> map (\<lambda>c. Some (c_to_country c)) ms)"
  from y have "y \<in> set (case filter (\<lambda>c. c_year c = year v \<and> c_to_country_id c = to_country_id v) cs of
                   [] \<Rightarrow> [None] | ms \<Rightarrow> map (\<lambda>c. Some (c_to_country c)) ms)"
    unfolding eq .
  from one_name_per_key [OF assms(2) this y'] show "y = y'" .
qed

lemma preprocess_data2_count:
  assumes "n \<in> set (snd (preprocess_data2 cs vs cu t3 fo))"
  shows "count n =
     card {t \<in> (\<lambda>r. (year r, round' r, to_country_x r, to_country_y r, to_country_id r))
                 ` set (add_total_points_overall
                          (pd_merge (top3_final_filters t3 fo (normalize_rounds vs)) cs)).
           snd (snd (snd (snd t))) = country_id n}"
proof -
  let ?U = "drop_duplicates
              (map (\<lambda>r. (year r, round' r, to_country_x r, to_country_y r, to_country_id r))
                 (add_total_points_overall
                    (pd_merge (top3_final_filters t3 fo (normalize_rounds vs)) cs)))"
  from assms obtain b where b: "country_id n = country_id b" "count n = count b"
    and "b \<in> set (map (\<lambda>i. let g = filter (\<lambda>(_, _, _, _, i'). i' = i) ?U in
                  \<lparr>country_id = i,
                   country_name =
                     (case filter (\<lambda>y. y \<noteq> None) (map (\<lambda>(_, _, _, y, _). y) g) of
                        [] \<Rightarrow> None
                      | y # _ \<Rightarrow> y),
                   count = length g\<rparr>)
              (sort (remdups (map (\<lambda>(_, _, _, _, i). i) ?U))))"
    unfolding preprocess_data2_def Let_def snd_conv
    by (blast dest: merge_cultural_node)
  then have "count b = length (filter (\<lambda>(_, _, _, _, i'). i' = country_id b) ?U)"
    by (auto simp: Let_def)
  also have "\<dots> = card ({t. snd (snd (snd (snd t))) = country_id b} \<inter> set ?U)"
    by (simp add: distinct_length_filter [OF distinct_drop_duplicates] case_prod_beta)
  also have "\<dots> = card {t \<in> set ?U. snd (snd (snd (snd t))) = country_id b}"
    by (rule arg_cong [where f = card]) auto
  finally show ?thesis
    by (simp add: b set_drop_duplicates)
qed

lemma node_count_year_rounds:
  assumes "labels_agree (top3_final_filters t3 fo (normalize_rounds vs))"
    and "names_agree cs"
    and "main2 t3 fo w m sel cs vs cu = Inr out"
    and "n \<in> set (nodelist out)"
  shows "count n
       = distinct_year_rounds (top3_final_filters t3 fo (normalize_rounds vs)) (country_id n)"
proof -
  from assms(3,4) have "n \<in> set (snd (main_filters (preprocess_data2 cs vs cu t3 fo) m sel))"
    by (simp add: main2_nodelist(1))
  then have "n \<in> set (snd (preprocess_data2 cs vs cu t3 fo))"
    by (cases "preprocess_data2 cs vs cu t3 fo") (simp add: snd_main_filters)
  from preprocess_data2_count [OF this] card_tuples_of_country [OF assms(1,2)]
  show ?thesis by simp
qed

text \<open>
  C6. Where the destination labels of the votes agree and a contestant key has one
  name, the participation count of a country of the node list of variant 2 is the
  number of distinct pairs of year and round in which it is a destination after the
  two optional filters; it is the same whatever the selection, the minimum and the
  weighting method of the run.
\<close>

theorem participation_count_counts_year_rounds:
  assumes "labels_agree (top3_final_filters t3 fo (normalize_rounds vs))"
    and "names_agree cs"
    and "main2 t3 fo w m sel cs vs cu = Inr out"
    and "n \<in> set (nodelist out)"
  shows "count n
       = distinct_year_rounds (top3_final_filters t3 fo (normalize_rounds vs)) (country_id n)
     \<and> (\<forall>w' m' sel' out' n'.
           main2 t3 fo w' m' sel' cs vs cu = Inr out' \<and> n' \<in> set (nodelist out')
             \<and> country_id n' = country_id n
           \<longrightarrow> count n' = count n)"
  using node_count_year_rounds [OF assms(1,2)] assms(3,4) by metis

theorem participation_count_counts_year_rounds_witness:
  "labels_agree (top3_final_filters False False (normalize_rounds ex_votes))
 \<and> names_agree ex_contestants
 \<and> (\<exists>out n. main2 False False ''No weights'' 2 [''Germany''] ex_contestants ex_votes
                  ([] :: unit cultural list) = Inr out
         \<and> n \<in> set (nodelist out) \<and> country_id n = ''DE'' \<and> count n = 2)"
proof -
  have l: "labels_agree (top3_final_filters False False (normalize_rounds ex_votes))"
    by code_simp
  have c: "names_agree ex_contestants"
    by code_simp
  have "case main2 False False ''No weights'' 2 [''Germany''] ex_contestants ex_votes
               ([] :: unit cultural list) of
          Inl _ \<Rightarrow> False
        | Inr out \<Rightarrow> \<exists>n\<in>set (nodelist out). country_id n = ''DE''"
    by code_simp
  then obtain out n where out: "main2 False False ''No weights'' 2 [''Germany''] ex_contestants
        ex_votes ([] :: unit cultural list) = Inr out"
    and n: "n \<in> set (nodelist out)" "country_id n = ''DE''"
    by (auto split: sum.splits)
  have d: "distinct_year_rounds (top3_final_filters False False (normalize_rounds ex_votes)) ''DE''
            = 2"
    by code_simp
  from participation_count_counts_year_rounds [OF l c out n(1)] n(2) d
  have "count n = 2" by simp
  with l c out n show ?thesis by blast
qed

text \<open>
  C6 as stated, for every input, fails: the count is the number of distinct
  combinations of year, round, destination label and contestant name for the id, and
  two votes of one year and round that spell the label differently count twice.
\<close>

theorem participation_count_counterexample:
  "main2 False False ''No weights'' 1 [''Germany''] ex_contestants ex_votes_two_labels
     ([] :: unit cultural list)
   = Inr \<lparr>edgelist = [],
          nodelist = [\<lparr>country_id = ''DE'', country_name = Some ''Germany'', count = 2,
                       cultural_dimensions = None\<rparr>],
          edgelist_csv = [],
          nodelist_csv = [\<lparr>country_id = ''DE'', country_name = Some ''Germany'', count = 2,
                           cultural_dimensions = None\<rparr>]\<rparr>
 \<and> distinct_year_rounds
       (top3_final_filters False False (normalize_rounds ex_votes_two_labels)) ''DE'' = 1"
  by code_simp

subsection \<open>Variant 2: one row per country id\<close>

text \<open>
  What variant 1 misses, variant 2 does: with at most one row of cultural dimensions
  per country, its node list has no two rows with the same id, and the name of a row
  is the first name that is not missing among the merged votes for the id, in input
  order.
\<close>

lemma remdups_snoc: "remdups (ys @ [x]) = remdups (filter (\<lambda>y. y \<noteq> x) ys) @ [x]"
  by (induction ys) auto

lemma drop_duplicates_Cons: "\<exists>ys. drop_duplicates (x # xs) = x # ys"
  by (simp add: drop_duplicates_def remdups_snoc)

lemma filter_drop_duplicates: "filter P (drop_duplicates xs) = drop_duplicates (filter P xs)"
  by (simp add: drop_duplicates_def rev_filter remdups_filter)

lemma filter_unique_key:
  assumes "distinct (map f xs)"
  shows "filter (\<lambda>x. f x = a) xs = [] \<or> (\<exists>x. filter (\<lambda>x. f x = a) xs = [x])"
  using assms
proof (induction xs)
  case Nil
  then show ?case by simp
next
  case (Cons x xs)
  show ?case
  proof (cases "f x = a")
    case True
    with Cons.prems have "filter (\<lambda>x. f x = a) xs = []"
      by (auto simp: filter_empty_conv image_iff)
    with True show ?thesis by simp
  next
    case False
    with Cons show ?thesis by simp
  qed
qed

lemma merge_cultural_unique:
  assumes "distinct (map cu_country_id cu)"
  shows "map country_id (merge_cultural base cu) = map country_id base"
proof -
  have one: "map country_id (case filter (\<lambda>c. cu_country_id c = country_id n) cu of
               [] \<Rightarrow> [node.extend n (node2.fields None)]
             | cs \<Rightarrow> map (\<lambda>c. node.extend n (node2.fields (Some (dimensions c)))) cs)
           = [country_id n]" for n :: node
    using filter_unique_key [OF assms, of "country_id n"]
    by (auto simp: node.defs node2.defs)
  show ?thesis
    by (induction base) (simp_all add: merge_cultural_def one)
qed

lemma preprocess_data2_one_row_per_id:
  assumes "distinct (map cu_country_id cu)"
  shows "distinct (map country_id (snd (preprocess_data2 cs vs cu t3 fo)))"
  by (simp add: preprocess_data2_def Let_def merge_cultural_unique [OF assms] comp_def)

lemma main2_one_row_per_country:
  assumes "distinct (map cu_country_id cu)"
    and "main2 t3 fo w m sel cs vs cu = Inr out"
  shows "distinct (map country_id (nodelist out))"
proof -
  obtain F C where p: "preprocess_data2 cs vs cu t3 fo = (F, C)"
    by (cases "preprocess_data2 cs vs cu t3 fo")
  with preprocess_data2_one_row_per_id [OF assms(1), of cs vs t3 fo]
  have "distinct (map country_id C)" by simp
  then show ?thesis
    by (simp add: main2_nodelist(1) [OF assms(2)] p snd_main_filters distinct_map_filter)
qed

lemma preprocess_data2_first_seen_name:
  assumes "n \<in> set (snd (preprocess_data2 cs vs cu t3 fo))"
  shows "country_name n =
     (case filter (\<lambda>y. y \<noteq> None)
             (map to_country_y
                (filter (\<lambda>r. to_country_id r = country_id n)
                   (pd_merge (top3_final_filters t3 fo (normalize_rounds vs)) cs))) of
        [] \<Rightarrow> None
      | y # _ \<Rightarrow> y)"
proof -
  let ?M = "pd_merge (top3_final_filters t3 fo (normalize_rounds vs)) cs"
  let ?tup = "\<lambda>r. (year r, round' r, to_country_x r, to_country_y r, to_country_id r)"
  let ?U = "drop_duplicates (map ?tup (add_total_points_overall ?M))"
  let ?Q = "\<lambda>t :: int \<times> string \<times> string \<times> string option \<times> string.
              fst (snd (snd (snd t))) \<noteq> None \<and> snd (snd (snd (snd t))) = country_id n"
  from assms obtain b where b: "country_id n = country_id b" "country_name n = country_name b"
    and "b \<in> set (map (\<lambda>i. let g = filter (\<lambda>(_, _, _, _, i'). i' = i) ?U in
                  \<lparr>country_id = i,
                   country_name =
                     (case filter (\<lambda>y. y \<noteq> None) (map (\<lambda>(_, _, _, y, _). y) g) of
                        [] \<Rightarrow> None
                      | y # _ \<Rightarrow> y),
                   count = length g\<rparr>)
              (sort (remdups (map (\<lambda>(_, _, _, _, i). i) ?U))))"
    unfolding preprocess_data2_def Let_def snd_conv
    by (blast dest: merge_cultural_node)
  then have "country_name b =
      (case filter (\<lambda>y. y \<noteq> None)
              (map (\<lambda>(_, _, _, y, _). y) (filter (\<lambda>(_, _, _, _, i'). i' = country_id b) ?U)) of
         [] \<Rightarrow> None | y # _ \<Rightarrow> y)"
    by (auto simp: Let_def)
  also have "filter (\<lambda>y. y \<noteq> None)
              (map (\<lambda>(_, _, _, y, _). y) (filter (\<lambda>(_, _, _, _, i'). i' = country_id b) ?U))
           = map (\<lambda>t. fst (snd (snd (snd t)))) (filter ?Q ?U)"
    by (simp add: filter_map comp_def case_prod_beta b(1) conj_commute)
  also have "filter ?Q ?U = drop_duplicates (filter ?Q (map ?tup (add_total_points_overall ?M)))"
    by (rule filter_drop_duplicates)
  finally have name: "country_name n =
      (case map (\<lambda>t. fst (snd (snd (snd t))))
              (drop_duplicates (filter ?Q (map ?tup (add_total_points_overall ?M)))) of
         [] \<Rightarrow> None | y # _ \<Rightarrow> y)"
    by (simp add: b(2))
  have rhs: "filter (\<lambda>y. y \<noteq> None)
             (map to_country_y (filter (\<lambda>r. to_country_id r = country_id n) ?M))
      = map (\<lambda>t. fst (snd (snd (snd t)))) (filter ?Q (map ?tup (add_total_points_overall ?M)))"
    by (simp add: add_total_points_overall_def filter_map comp_def conj_commute
          merged_vote.defs merged_row.defs)
  show ?thesis
  proof (cases "filter ?Q (map ?tup (add_total_points_overall ?M))")
    case Nil
    with name rhs show ?thesis by (simp add: drop_duplicates_def)
  next
    case (Cons t ts)
    from drop_duplicates_Cons [of t ts] obtain ys where "drop_duplicates (t # ts) = t # ys" ..
    with name rhs Cons show ?thesis by simp
  qed
qed

end
